theory Spec2Isabelle
  imports Main
begin

section \<open>Objects the library state points to\<close>

text \<open>
  \<^verbatim>\<open>libstate.cpp\<close> holds its collaborators through raw pointers. A non-null pointer to an
  object is the object's identity; a pointer that may be null is an \<open>option\<close>, with
  \<open>None\<close> for the null pointer. An allocator carries the name its virtual \<^verbatim>\<open>type()\<close>
  reports, so that two distinct providers can report one name.
\<close>

type_synonym addr = nat

datatype allocator = Allocator (allocator_addr: addr) (allocator_type: string)

datatype engine = Engine addr

datatype mutex_factory = Mutex_Factory addr

text \<open>A mutex is known by the factory that made it and by how many it had made before.\<close>

datatype mutex = Mutex mutex_factory nat

text \<open>
  Modelled from the spec: \<^verbatim>\<open>Algorithm_Factory\<close> and its \<^verbatim>\<open>add_engine\<close> are used by
  \<^verbatim>\<open>libstate.cpp\<close> and defined elsewhere. The factory holds an ordered sequence of engines,
  is created empty, and \<^verbatim>\<open>add_engine\<close> appends.
\<close>

datatype algorithm_factory = Algorithm_Factory (engines: "engine list")

definition add_engine :: "algorithm_factory \<Rightarrow> engine \<Rightarrow> algorithm_factory" where
  "add_engine af e = Algorithm_Factory (engines af @ [e])"

text \<open>
  The calls the library state makes on objects it does not define, in the order made.
  They are the only trace the collaborators keep of the state's life.
\<close>

datatype call =
    Allocator_init allocator
  | Allocator_destroy allocator
  | Delete_Allocator allocator
  | Delete_Algorithm_Factory algorithm_factory
  | Mutex_Factory_make mutex_factory
  | Delete_Mutex mutex
  | Delete_Mutex_Factory mutex_factory
  | Passes_self_tests

datatype error = Invalid_State string | Invalid_Argument string | Self_Test_Failure string

text \<open>
  Modelled from the spec: \<^verbatim>\<open>Mutex_Holder\<close> is used by \<^verbatim>\<open>libstate.cpp\<close> and defined
  elsewhere. It acquires the lock it is given for the rest of the scope; its constructor
  refuses a null mutex with \<^verbatim>\<open>Invalid_Argument\<close>. The run is sequential, so holding a lock
  that exists changes nothing.
\<close>

definition Mutex_Holder :: "mutex option \<Rightarrow> error + unit" where
  "Mutex_Holder mux =
     (case mux of
        None \<Rightarrow> Inl (Invalid_Argument ''Mutex_Holder: Argument was NULL'')
      | Some m \<Rightarrow> Inr ())"

text \<open>
  Modelled from the spec: the generic "search map with default" helper of
  \<^verbatim>\<open>botan/stl_util.h\<close>, in its two forms: the stored value or a default, and one of two
  fixed answers for present and absent.
\<close>

definition search_map :: "('k \<rightharpoonup> 'v) \<Rightarrow> 'k \<Rightarrow> 'v \<Rightarrow> 'v" where
  "search_map mapping key null_result =
     (case mapping key of None \<Rightarrow> null_result | Some v \<Rightarrow> v)"

definition search_map_found :: "('k \<rightharpoonup> 'v) \<Rightarrow> 'k \<Rightarrow> 'r \<Rightarrow> 'r \<Rightarrow> 'r" where
  "search_map_found mapping key null_result found_result =
     (case mapping key of None \<Rightarrow> null_result | Some v \<Rightarrow> found_result)"

section \<open>The library state\<close>

text \<open>
  The members of \<^verbatim>\<open>Library_State\<close>. \<open>alloc_factory\<close> maps a name to an
  \<^verbatim>\<open>Allocator*\<close>, \<open>allocators\<close> is the vector of every registered provider.
  Vectors are lists and a loop over one visits each element once. A member function that
  can throw returns \<open>Inl\<close> the exception; each of them throws before it has changed
  anything, so the state after an exception is the state before the call.
\<close>

record library_state =
  mutex_factory :: "mutex_factory option"
  allocator_lock :: "mutex option"
  config_lock :: "mutex option"
  cached_default_allocator :: "allocator option"
  algorithm_factory :: "algorithm_factory option"
  config :: "string \<rightharpoonup> string"
  alloc_factory :: "string \<rightharpoonup> allocator option"
  allocators :: "allocator list"

text \<open>\<^verbatim>\<open>Library_State::Library_State()\<close>: every pointer null, the containers empty.\<close>

definition Library_State :: library_state where
  "Library_State =
     \<lparr> mutex_factory = None, allocator_lock = None, config_lock = None,
       cached_default_allocator = None, algorithm_factory = None,
       config = Map.empty, alloc_factory = Map.empty, allocators = [] \<rparr>"

subsection \<open>Configuration\<close>

definition get :: "library_state \<Rightarrow> string \<Rightarrow> string \<Rightarrow> error + string" where
  "get s section key =
     (case Mutex_Holder (config_lock s) of
        Inl e \<Rightarrow> Inl e
      | Inr lock \<Rightarrow> Inr (search_map (config s) (section @ ''/'' @ key) ''''))"

definition is_set :: "library_state \<Rightarrow> string \<Rightarrow> string \<Rightarrow> error + bool" where
  "is_set s section key =
     (case Mutex_Holder (config_lock s) of
        Inl e \<Rightarrow> Inl e
      | Inr lock \<Rightarrow> Inr (search_map_found (config s) (section @ ''/'' @ key) False True))"

text \<open>
  \<^verbatim>\<open>Library_State::set\<close>. The iterator \<open>i\<close> is the result of \<^verbatim>\<open>config.find\<close>:
  \<open>None\<close> is \<^verbatim>\<open>config.end()\<close>. The header gives \<open>overwrite\<close> the default
  \<open>True\<close>; callers that leave it out pass \<open>True\<close> here.
\<close>

definition set_val :: "library_state \<Rightarrow> string \<Rightarrow> string \<Rightarrow> string \<Rightarrow> bool \<Rightarrow> error + library_state" where
  "set_val s section key val overwrite =
     (case Mutex_Holder (config_lock s) of
        Inl e \<Rightarrow> Inl e
      | Inr lock \<Rightarrow>
          (let full_key = section @ ''/'' @ key;
               i = config s full_key
           in if overwrite \<or> i = None \<or> i = Some ''''
              then Inr (s\<lparr>config := (config s)(full_key \<mapsto> val)\<rparr>)
              else Inr s))"

definition add_alias :: "library_state \<Rightarrow> string \<Rightarrow> string \<Rightarrow> error + library_state" where
  "add_alias s key val = set_val s ''alias'' key val True"

definition set_option :: "library_state \<Rightarrow> string \<Rightarrow> string \<Rightarrow> error + library_state" where
  "set_option s key val = set_val s ''conf'' key val True"

definition option :: "library_state \<Rightarrow> string \<Rightarrow> error + string" where
  "option s key = get s ''conf'' key"

text \<open>
  \<^verbatim>\<open>Library_State::deref_alias\<close>: \<^verbatim>\<open>while(is_set("alias", result)) result = get("alias", result)\<close>.
  The loop has no bound, so the function is partial: \<open>None\<close> is a loop that never
  returns, \<open>Some (Inl e)\<close> an exception, \<open>Some (Inr r)\<close> the name returned.
\<close>

partial_function (option) deref_alias_loop :: "library_state \<Rightarrow> string \<Rightarrow> (error + string) option" where
  "deref_alias_loop s result =
     (case is_set s ''alias'' result of
        Inl e \<Rightarrow> Some (Inl e)
      | Inr b \<Rightarrow>
          if b
          then (case get s ''alias'' result of
                  Inl e \<Rightarrow> Some (Inl e)
                | Inr r \<Rightarrow> deref_alias_loop s r)
          else Some (Inr result))"

definition deref_alias :: "library_state \<Rightarrow> string \<Rightarrow> (error + string) option" where
  "deref_alias s key = deref_alias_loop s key"

subsection \<open>Allocators\<close>

text \<open>
  \<^verbatim>\<open>Library_State::get_allocator\<close> is \<^verbatim>\<open>const\<close> but fills the cache, so it returns
  the state with its answer.
\<close>

definition get_allocator :: "library_state \<Rightarrow> string \<Rightarrow> error + (allocator option \<times> library_state)" where
  "get_allocator s ty =
     (case Mutex_Holder (allocator_lock s) of
        Inl e \<Rightarrow> Inl e
      | Inr lock \<Rightarrow>
          if ty \<noteq> '''' then Inr (search_map (alloc_factory s) ty None, s)
          else if cached_default_allocator s = None then
            (case option s ''base/default_allocator'' of
               Inl e \<Rightarrow> Inl e
             | Inr chosen \<Rightarrow>
                 (let chosen' = (if chosen = '''' then ''malloc'' else chosen);
                      s' = s\<lparr>cached_default_allocator := search_map (alloc_factory s) chosen' None\<rparr>
                  in Inr (cached_default_allocator s', s')))
          else Inr (cached_default_allocator s, s))"

definition add_allocator :: "allocator \<Rightarrow> library_state \<times> call list \<Rightarrow> error + (library_state \<times> call list)" where
  "add_allocator a = (\<lambda>(s, tr).
     case Mutex_Holder (allocator_lock s) of
       Inl e \<Rightarrow> Inl e
     | Inr lock \<Rightarrow>
         Inr (s\<lparr>allocators := allocators s @ [a],
                alloc_factory := (alloc_factory s)(allocator_type a \<mapsto> Some a)\<rparr>,
              tr @ [Allocator_init a]))"

definition set_default_allocator :: "library_state \<Rightarrow> string \<Rightarrow> error + library_state" where
  "set_default_allocator s ty =
     (case Mutex_Holder (allocator_lock s) of
        Inl e \<Rightarrow> Inl e
      | Inr lock \<Rightarrow>
          if ty = '''' then Inr s
          else (case set_val s ''conf'' ''base/default_allocator'' ty True of
                  Inl e \<Rightarrow> Inl e
                | Inr s' \<Rightarrow> Inr (s'\<lparr>cached_default_allocator := None\<rparr>)))"

subsection \<open>Initialization\<close>

text \<open>
  The collaborators of \<^verbatim>\<open>initialize\<close>, none of them defined in \<^verbatim>\<open>libstate.cpp\<close>.
  \<open>modules\<close> is the module descriptor with the answers of its four methods,
  \<open>initializer_options\<close> the three flags of \<^verbatim>\<open>InitializerOptions\<close>, and \<open>build\<close>
  what the build fixes: whether \<^verbatim>\<open>BOTAN_HAS_SELFTEST\<close> is defined, what
  \<^verbatim>\<open>passes_self_tests()\<close> answers when it is called, and the built-in configuration
  entries (section, key, value).
\<close>

record modules =
  modules_mutex_factory :: "bool \<Rightarrow> mutex_factory option"
  modules_allocators :: "mutex_factory \<Rightarrow> allocator list"
  modules_default_allocator :: string
  modules_engines :: "engine list"

record initializer_options =
  thread_safe :: bool
  fips_mode :: bool
  self_test :: bool

record build =
  BOTAN_HAS_SELFTEST :: bool
  passes_self_tests :: bool
  default_config :: "(string \<times> string \<times> string) list"

text \<open>
  Modelled from the spec: \<^verbatim>\<open>Mutex_Factory::make\<close>, defined elsewhere, produces a new mutex
  on demand.
\<close>

definition make_mutex :: "mutex_factory \<Rightarrow> call list \<Rightarrow> mutex \<times> call list" where
  "make_mutex mf tr =
     (Mutex mf (length (filter (\<lambda>c. c = Mutex_Factory_make mf) tr)),
      tr @ [Mutex_Factory_make mf])"

text \<open>
  Modelled from the spec: \<^verbatim>\<open>Library_State::load_default_config\<close> is called by
  \<^verbatim>\<open>initialize\<close> and defined elsewhere. It loads the built-in entries without overwriting,
  one \<^verbatim>\<open>set\<close> after the other; an exception of a \<^verbatim>\<open>set\<close> ends it with the entries
  written so far.
\<close>

fun load_default_config :: "(string \<times> string \<times> string) list \<Rightarrow> library_state \<Rightarrow> (error + unit) \<times> library_state" where
  "load_default_config [] s = (Inr (), s)"
| "load_default_config ((section, key, val) # defaults) s =
     (case set_val s section key val False of
        Inl e \<Rightarrow> (Inl e, s)
      | Inr s' \<Rightarrow> load_default_config defaults s')"

text \<open>
  The loop of lines 222 and 223, \<^verbatim>\<open>add_allocator(mod_allocs[j])\<close> for each \<open>j\<close>: an
  exception ends it with the providers registered so far.
\<close>

fun add_allocators :: "allocator list \<Rightarrow> library_state \<times> call list \<Rightarrow> (error + unit) \<times> library_state \<times> call list" where
  "add_allocators [] st = (Inr (), st)"
| "add_allocators (a # mod_allocs) st =
     (case add_allocator a st of
        Inl e \<Rightarrow> (Inl e, st)
      | Inr st' \<Rightarrow> add_allocators mod_allocs st')"

text \<open>
  Lines 216 to 233 of \<^verbatim>\<open>initialize\<close>, run once the mutex factory \<open>mf\<close> is known not to
  be null: the two locks (\<^verbatim>\<open>get_mutex()\<close> is \<^verbatim>\<open>mutex_factory->make()\<close>), the cache
  reset, the module's allocators, its default allocator, the default configuration, and
  the new algorithm factory with the module's engines.
\<close>

definition load_modules :: "build \<Rightarrow> modules \<Rightarrow> mutex_factory \<Rightarrow> library_state \<times> call list
    \<Rightarrow> (error + unit) \<times> library_state \<times> call list" where
  "load_modules b m mf = (\<lambda>(s0, tr0).
     (let (lock1, tr1) = make_mutex mf tr0;
          s1 = s0\<lparr>allocator_lock := Some lock1\<rparr>;
          (lock2, tr2) = make_mutex mf tr1;
          s2 = s1\<lparr>config_lock := Some lock2\<rparr>;
          s3 = s2\<lparr>cached_default_allocator := None\<rparr>
      in case add_allocators (modules_allocators m mf) (s3, tr2) of
           (Inl e, s4, tr4) \<Rightarrow> (Inl e, s4, tr4)
         | (Inr _, s4, tr4) \<Rightarrow>
             (case set_default_allocator s4 (modules_default_allocator m) of
                Inl e \<Rightarrow> (Inl e, s4, tr4)
              | Inr s5 \<Rightarrow>
                  (case load_default_config (default_config b) s5 of
                     (Inl e, s6) \<Rightarrow> (Inl e, s6, tr4)
                   | (Inr _, s6) \<Rightarrow>
                       (Inr (),
                        s6\<lparr>algorithm_factory :=
                             Some (fold (\<lambda>e af. add_engine af e) (modules_engines m)
                                     (Algorithm_Factory []))\<rparr>,
                        tr4)))))"

text \<open>
  \<^verbatim>\<open>Library_State::initialize\<close>. It changes the state before some of its exceptions, so
  the state and the calls come back with the outcome: \<open>Inl\<close> the exception, \<open>Inr ()\<close>
  a normal return.
\<close>

definition initialize :: "build \<Rightarrow> initializer_options \<Rightarrow> modules \<Rightarrow> library_state \<times> call list
    \<Rightarrow> (error + unit) \<times> library_state \<times> call list" where
  "initialize b args m = (\<lambda>(s, tr).
     if mutex_factory s \<noteq> None
     then (Inl (Invalid_State ''Library_State has already been initialized''), s, tr)
     else
       (let s' = s\<lparr>mutex_factory := modules_mutex_factory m (thread_safe args)\<rparr>
        in case mutex_factory s' of
             None \<Rightarrow> (Inl (Invalid_State ''Could not acquire a mutex module at init''), s', tr)
           | Some mf \<Rightarrow>
               (case load_modules b m mf (s', tr) of
                  (Inl e, s'', tr'') \<Rightarrow> (Inl e, s'', tr'')
                | (Inr _, s'', tr'') \<Rightarrow>
                    if BOTAN_HAS_SELFTEST b \<and> (fips_mode args \<or> self_test args)
                    then (if passes_self_tests b
                          then (Inr (), s'', tr'' @ [Passes_self_tests])
                          else (Inl (Self_Test_Failure ''Initialization self-tests''),
                                s'', tr'' @ [Passes_self_tests]))
                    else (Inr (), s'', tr''))))"

definition algo_factory :: "library_state \<Rightarrow> error + algorithm_factory" where
  "algo_factory s =
     (case algorithm_factory s of
        None \<Rightarrow> Inl (Invalid_State ''Uninitialized in Library_State::algo_factory'')
      | Some af \<Rightarrow> Inr af)"

subsection \<open>Destruction\<close>

text \<open>\<^verbatim>\<open>delete p\<close> on a member pointer: nothing for a null pointer.\<close>

definition delete_ptr :: "('a \<Rightarrow> call) \<Rightarrow> 'a option \<Rightarrow> call list" where
  "delete_ptr c p = (case p of None \<Rightarrow> [] | Some x \<Rightarrow> [c x])"

text \<open>
  \<^verbatim>\<open>Library_State::~Library_State\<close>: the calls it adds. The object is gone afterwards,
  so no state comes back.
\<close>

definition destroy_Library_State :: "library_state \<Rightarrow> call list \<Rightarrow> call list" where
  "destroy_Library_State s tr =
     tr @ delete_ptr Delete_Algorithm_Factory (algorithm_factory s)
        @ concat (map (\<lambda>a. [Allocator_destroy a, Delete_Allocator a]) (allocators s))
        @ delete_ptr Delete_Mutex (allocator_lock s)
        @ delete_ptr Delete_Mutex_Factory (mutex_factory s)
        @ delete_ptr Delete_Mutex (config_lock s)"

section \<open>The global state\<close>

text \<open>
  \<open>global_lib_state\<close> is a \<^verbatim>\<open>Library_State*\<close>; \<open>objects\<close> holds the live
  \<^verbatim>\<open>Library_State\<close> objects by address and \<open>calls\<close> the calls made so far.
\<close>

record process =
  global_lib_state :: "addr option"
  objects :: "addr \<rightharpoonup> library_state"
  calls :: "call list"

definition swap_global_state :: "addr option \<Rightarrow> process \<Rightarrow> addr option \<times> process" where
  "swap_global_state new_state pr =
     (let old_state = global_lib_state pr;
          pr' = pr\<lparr>global_lib_state := new_state\<rparr>
      in (old_state, pr'))"

text \<open>
  \<^verbatim>\<open>delete p\<close> on a \<^verbatim>\<open>Library_State*\<close>: nothing for a null pointer, the destructor
  and the end of the object for a live one. Deleting an address that holds no live object is
  undefined in C++: \<open>None\<close>.
\<close>

definition delete_Library_State :: "addr option \<Rightarrow> process \<Rightarrow> process option" where
  "delete_Library_State p pr =
     (case p of
        None \<Rightarrow> Some pr
      | Some a \<Rightarrow>
          (case objects pr a of
             None \<Rightarrow> None
           | Some s \<Rightarrow>
               Some (pr\<lparr>objects := (objects pr)(a := None),
                         calls := destroy_Library_State s (calls pr)\<rparr>)))"

definition set_global_state :: "addr option \<Rightarrow> process \<Rightarrow> process option" where
  "set_global_state new_state pr =
     (case swap_global_state new_state pr of (old_state, pr') \<Rightarrow> delete_Library_State old_state pr')"

text \<open>
  The spec's wording of \<^verbatim>\<open>set_global_state\<close>, for comparison with the code: it installs
  the caller's state, destroying whatever was installed before.
\<close>

definition spec_set_global_state :: "addr option \<Rightarrow> process \<Rightarrow> process option" where
  "spec_set_global_state new_state pr =
     map_option (\<lambda>pr'. pr'\<lparr>global_lib_state := new_state\<rparr>)
       (delete_Library_State (global_lib_state pr) pr)"

section \<open>Clients and observations\<close>

text \<open>
  What a client can do to a \<^verbatim>\<open>Library_State\<close> it holds: the member functions that
  change it. The reading functions (\<^verbatim>\<open>get\<close>, \<^verbatim>\<open>is_set\<close>, \<^verbatim>\<open>option\<close>,
  \<^verbatim>\<open>deref_alias\<close>, \<^verbatim>\<open>algo_factory\<close>) change nothing and are left out. A client that
  catches an exception goes on with the state as the exception left it.
\<close>

datatype op =
    Op_set string string string bool
  | Op_add_alias string string
  | Op_set_option string string
  | Op_add_allocator allocator
  | Op_get_allocator string
  | Op_set_default_allocator string
  | Op_initialize build initializer_options modules

definition caught :: "'a \<Rightarrow> error + 'a \<Rightarrow> 'a" where
  "caught before r = (case r of Inl e \<Rightarrow> before | Inr after \<Rightarrow> after)"

fun apply_op :: "op \<Rightarrow> library_state \<times> call list \<Rightarrow> library_state \<times> call list" where
  "apply_op (Op_set section key val overwrite) (s, tr) =
     (caught s (set_val s section key val overwrite), tr)"
| "apply_op (Op_add_alias key val) (s, tr) = (caught s (add_alias s key val), tr)"
| "apply_op (Op_set_option key val) (s, tr) = (caught s (set_option s key val), tr)"
| "apply_op (Op_add_allocator a) (s, tr) = caught (s, tr) (add_allocator a (s, tr))"
| "apply_op (Op_get_allocator ty) (s, tr) = (caught s (map_sum id snd (get_allocator s ty)), tr)"
| "apply_op (Op_set_default_allocator ty) (s, tr) = (caught s (set_default_allocator s ty), tr)"
| "apply_op (Op_initialize b args m) (s, tr) = snd (initialize b args m (s, tr))"

text \<open>The operations that set the default allocator, \<^verbatim>\<open>initialize\<close> among them.\<close>

fun sets_default_allocator :: "op \<Rightarrow> bool" where
  "sets_default_allocator (Op_set_default_allocator ty) = True"
| "sets_default_allocator (Op_initialize b args m) = True"
| "sets_default_allocator other = False"

text \<open>The providers a client's calls hand to \<^verbatim>\<open>add_allocator\<close>, in order.\<close>

fun registrations :: "op list \<Rightarrow> allocator list" where
  "registrations [] = []"
| "registrations (Op_add_allocator a # ops) = a # registrations ops"
| "registrations (other # ops) = registrations ops"

text \<open>The providers whose \<^verbatim>\<open>init()\<close>, and whose \<^verbatim>\<open>destroy()\<close>, a run has called, in order.\<close>

fun init_calls :: "call list \<Rightarrow> allocator list" where
  "init_calls [] = []"
| "init_calls (Allocator_init a # tr) = a # init_calls tr"
| "init_calls (c # tr) = init_calls tr"

fun destroy_calls :: "call list \<Rightarrow> allocator list" where
  "destroy_calls [] = []"
| "destroy_calls (Allocator_destroy a # tr) = a # destroy_calls tr"
| "destroy_calls (c # tr) = destroy_calls tr"

text \<open>
  The alias table as \<^verbatim>\<open>deref_alias\<close> reads it: whether a name has an alias entry, and the
  name its entry gives.
\<close>

definition has_alias :: "library_state \<Rightarrow> string \<Rightarrow> bool" where
  "has_alias s key = (config s (''alias'' @ ''/'' @ key) \<noteq> None)"

definition alias_target :: "library_state \<Rightarrow> string \<Rightarrow> string" where
  "alias_target s key = search_map (config s) (''alias'' @ ''/'' @ key) ''''"

section \<open>Example collaborators\<close>

text \<open>
  Concrete inputs for the examples below: a module descriptor that has a mutex factory only
  when thread safety is not asked for, with two allocators and one engine; option sets;
  builds whose self-test suite passes or fails; and the state and calls after a successful
  \<^verbatim>\<open>initialize\<close> of a new \<^verbatim>\<open>Library_State\<close> with them.
\<close>

definition example_modules :: modules where
  "example_modules =
     \<lparr> modules_mutex_factory = (\<lambda>thread_safe. if thread_safe then None else Some (Mutex_Factory 0)),
       modules_allocators = (\<lambda>mf. [Allocator 1 ''malloc'', Allocator 2 ''locking'']),
       modules_default_allocator = ''locking'',
       modules_engines = [Engine 3] \<rparr>"

definition example_options :: "bool \<Rightarrow> bool \<Rightarrow> initializer_options" where
  "example_options ts fips = \<lparr> thread_safe = ts, fips_mode = fips, self_test = False \<rparr>"

definition example_build :: "bool \<Rightarrow> build" where
  "example_build passes =
     \<lparr> BOTAN_HAS_SELFTEST = True, passes_self_tests = passes,
       default_config = [(''conf'', ''base/default_allocator'', ''malloc'')] \<rparr>"

definition example_initialized :: "library_state \<times> call list" where
  "example_initialized =
     snd (initialize (example_build True) (example_options False False) example_modules
            (Library_State, []))"

section \<open>Locks\<close>

text \<open>With its lock in place a member function gets past \<^verbatim>\<open>Mutex_Holder\<close>.\<close>

lemma Mutex_Holder_Some: "mux \<noteq> None \<Longrightarrow> Mutex_Holder mux = Inr ()"
  by (cases mux) (simp_all add: Mutex_Holder_def)

lemma get_locked:
  "config_lock s \<noteq> None \<Longrightarrow> get s section key = Inr (search_map (config s) (section @ ''/'' @ key) '''')"
  by (simp add: get_def Mutex_Holder_Some)

lemma is_set_locked:
  "config_lock s \<noteq> None \<Longrightarrow>
   is_set s section key = Inr (search_map_found (config s) (section @ ''/'' @ key) False True)"
  by (simp add: is_set_def Mutex_Holder_Some)

lemma set_val_locked:
  "config_lock s \<noteq> None \<Longrightarrow>
   set_val s section key val overwrite =
     Inr (if overwrite \<or> config s (section @ ''/'' @ key) = None
             \<or> config s (section @ ''/'' @ key) = Some ''''
          then s\<lparr>config := (config s)(section @ ''/'' @ key \<mapsto> val)\<rparr> else s)"
  by (simp add: set_val_def Mutex_Holder_Some Let_def)

lemma set_val_fields:
  assumes "set_val s section key val overwrite = Inr s'"
  shows "mutex_factory s' = mutex_factory s" "allocator_lock s' = allocator_lock s"
    "config_lock s' = config_lock s" "algorithm_factory s' = algorithm_factory s"
    "cached_default_allocator s' = cached_default_allocator s"
    "allocators s' = allocators s" "alloc_factory s' = alloc_factory s"
  using assms by (auto simp: set_val_def Let_def split: sum.splits if_splits)

section \<open>Initialization\<close>

text \<open>What each step of \<^verbatim>\<open>initialize\<close> does once the locks exist, and what the steps add up to.\<close>

lemma fold_add_engine:
  "fold (\<lambda>e af. add_engine af e) es af = Algorithm_Factory (engines af @ es)"
  by (induction es arbitrary: af) (simp_all add: add_engine_def)

lemma add_allocator_locked:
  "allocator_lock s \<noteq> None \<Longrightarrow>
   add_allocator a (s, tr) =
     Inr (s\<lparr>allocators := allocators s @ [a],
            alloc_factory := (alloc_factory s)(allocator_type a \<mapsto> Some a)\<rparr>,
          tr @ [Allocator_init a])"
  by (simp add: add_allocator_def Mutex_Holder_Some)

lemma add_allocators_locked:
  "allocator_lock s \<noteq> None \<Longrightarrow>
   add_allocators ps (s, tr) =
     (Inr (),
      s\<lparr>allocators := allocators s @ ps,
        alloc_factory := fold (\<lambda>a f. f(allocator_type a \<mapsto> Some a)) ps (alloc_factory s)\<rparr>,
      tr @ map Allocator_init ps)"
  by (induction ps arbitrary: s tr) (simp_all add: add_allocator_locked)

lemma set_default_allocator_locked:
  "allocator_lock s \<noteq> None \<Longrightarrow> config_lock s \<noteq> None \<Longrightarrow>
   set_default_allocator s ty =
     Inr (if ty = '''' then s
          else s\<lparr>config := (config s)(''conf/base/default_allocator'' \<mapsto> ty),
                 cached_default_allocator := None\<rparr>)"
  by (simp add: set_default_allocator_def Mutex_Holder_Some set_val_locked)

lemma set_default_allocator_fields:
  assumes "set_default_allocator s ty = Inr s'"
  shows "mutex_factory s' = mutex_factory s" "allocator_lock s' = allocator_lock s"
    "config_lock s' = config_lock s" "algorithm_factory s' = algorithm_factory s"
    "allocators s' = allocators s" "alloc_factory s' = alloc_factory s"
  using assms
  by (auto simp: set_default_allocator_def set_val_def Let_def split: sum.splits if_splits)

lemma load_default_config_locked:
  "config_lock s \<noteq> None \<Longrightarrow> fst (load_default_config ds s) = Inr ()"
proof (induction ds arbitrary: s)
  case Nil
  then show ?case by simp
next
  case (Cons d ds)
  obtain sec k v where d: "d = (sec, k, v)" by (cases d)
  from Cons.prems obtain s' where s': "set_val s sec k v False = Inr s'"
    by (simp add: set_val_locked)
  with Cons.prems have "config_lock s' \<noteq> None" by (simp add: set_val_fields)
  then show ?case using Cons.IH [of s'] s' by (simp add: d)
qed

lemma load_default_config_fields:
  "mutex_factory (snd (load_default_config ds s)) = mutex_factory s"
  "allocator_lock (snd (load_default_config ds s)) = allocator_lock s"
  "config_lock (snd (load_default_config ds s)) = config_lock s"
  "algorithm_factory (snd (load_default_config ds s)) = algorithm_factory s"
  "cached_default_allocator (snd (load_default_config ds s)) = cached_default_allocator s"
  "allocators (snd (load_default_config ds s)) = allocators s"
  "alloc_factory (snd (load_default_config ds s)) = alloc_factory s"
  by (induction ds s rule: load_default_config.induct;
      simp add: set_val_fields split: sum.splits)+

lemma load_modules_locked:
  "fst (load_modules b m mf (s, tr)) = Inr ()"
  "mutex_factory (fst (snd (load_modules b m mf (s, tr)))) = mutex_factory s"
  "allocator_lock (fst (snd (load_modules b m mf (s, tr)))) \<noteq> None"
  "config_lock (fst (snd (load_modules b m mf (s, tr)))) \<noteq> None"
  "algorithm_factory (fst (snd (load_modules b m mf (s, tr)))) =
     Some (Algorithm_Factory (modules_engines m))"
  "allocators (fst (snd (load_modules b m mf (s, tr)))) = allocators s @ modules_allocators m mf"
  "snd (snd (load_modules b m mf (s, tr))) =
     tr @ [Mutex_Factory_make mf, Mutex_Factory_make mf] @ map Allocator_init (modules_allocators m mf)"
proof -
  let ?s3 = "s\<lparr>allocator_lock := Some (fst (make_mutex mf tr)),
                config_lock := Some (fst (make_mutex mf (snd (make_mutex mf tr)))),
                cached_default_allocator := None\<rparr>"
  let ?tr2 = "snd (make_mutex mf (snd (make_mutex mf tr)))"
  let ?ps = "modules_allocators m mf"
  let ?s4 = "?s3\<lparr>allocators := allocators ?s3 @ ?ps,
        alloc_factory := fold (\<lambda>a f. f(allocator_type a \<mapsto> Some a)) ?ps (alloc_factory ?s3)\<rparr>"
  have a: "add_allocators ?ps (?s3, ?tr2) = (Inr (), ?s4, ?tr2 @ map Allocator_init ?ps)"
    by (rule add_allocators_locked) simp
  obtain s5 where s5: "set_default_allocator ?s4 (modules_default_allocator m) = Inr s5"
    by (simp add: set_default_allocator_locked)
  note f5 = set_default_allocator_fields [OF s5]
  have l5: "config_lock s5 \<noteq> None" by (simp add: f5)
  obtain r6 s6 where s6: "load_default_config (default_config b) s5 = (r6, s6)"
    by (cases "load_default_config (default_config b) s5")
  have r6: "r6 = Inr ()"
    using load_default_config_locked [OF l5, of "default_config b"] s6 by simp
  have f6: "mutex_factory s6 = mutex_factory s5" "allocator_lock s6 = allocator_lock s5"
    "config_lock s6 = config_lock s5" "allocators s6 = allocators s5"
    using load_default_config_fields [of "default_config b" s5] s6 by simp_all
  have eq: "load_modules b m mf (s, tr) =
      (Inr (), s6\<lparr>algorithm_factory := Some (Algorithm_Factory (modules_engines m))\<rparr>,
       ?tr2 @ map Allocator_init ?ps)"
    using a s5 s6 r6
    by (simp add: load_modules_def Let_def split_beta fold_add_engine)
  show "fst (load_modules b m mf (s, tr)) = Inr ()"
    "mutex_factory (fst (snd (load_modules b m mf (s, tr)))) = mutex_factory s"
    "allocator_lock (fst (snd (load_modules b m mf (s, tr)))) \<noteq> None"
    "config_lock (fst (snd (load_modules b m mf (s, tr)))) \<noteq> None"
    "algorithm_factory (fst (snd (load_modules b m mf (s, tr)))) =
       Some (Algorithm_Factory (modules_engines m))"
    "allocators (fst (snd (load_modules b m mf (s, tr)))) = allocators s @ modules_allocators m mf"
    "snd (snd (load_modules b m mf (s, tr))) =
       tr @ [Mutex_Factory_make mf, Mutex_Factory_make mf] @ map Allocator_init (modules_allocators m mf)"
    by (simp_all add: eq f6 f5 make_mutex_def)
qed

lemma load_modules_passes:
  "load_modules (b\<lparr>passes_self_tests := x\<rparr>) m mf st = load_modules b m mf st"
  by (simp add: load_modules_def cong: sum.case_cong prod.case_cong)

lemma initialize_already:
  "mutex_factory s \<noteq> None \<Longrightarrow>
   initialize b a m (s, tr) = (Inl (Invalid_State ''Library_State has already been initialized''), s, tr)"
  by (simp add: initialize_def)

lemma initialize_unfold:
  "mutex_factory s = None \<Longrightarrow> modules_mutex_factory m (thread_safe a) = Some mf \<Longrightarrow>
   initialize b a m (s, tr) =
     (let st = snd (load_modules b m mf (s\<lparr>mutex_factory := Some mf\<rparr>, tr))
      in if BOTAN_HAS_SELFTEST b \<and> (fips_mode a \<or> self_test a)
         then (if passes_self_tests b
               then (Inr (), fst st, snd st @ [Passes_self_tests])
               else (Inl (Self_Test_Failure ''Initialization self-tests''),
                     fst st, snd st @ [Passes_self_tests]))
         else (Inr (), fst st, snd st))"
  using load_modules_locked(1) [of b m mf "s\<lparr>mutex_factory := Some mf\<rparr>" tr]
  by (cases "load_modules b m mf (s\<lparr>mutex_factory := Some mf\<rparr>, tr)")
    (auto simp: initialize_def Let_def)

lemma initialize_Inr_fields:
  assumes "fst (initialize b a m (s, tr)) = Inr ()"
  shows "mutex_factory (fst (snd (initialize b a m (s, tr)))) \<noteq> None"
    and "allocator_lock (fst (snd (initialize b a m (s, tr)))) \<noteq> None"
    and "config_lock (fst (snd (initialize b a m (s, tr)))) \<noteq> None"
    and "algorithm_factory (fst (snd (initialize b a m (s, tr)))) =
           Some (Algorithm_Factory (modules_engines m))"
proof -
  from assms have n: "mutex_factory s = None"
    by (auto simp: initialize_def split: if_splits)
  from assms n obtain mf where mf: "modules_mutex_factory m (thread_safe a) = Some mf"
    by (cases "modules_mutex_factory m (thread_safe a)") (auto simp: initialize_def)
  note u = initialize_unfold [OF n mf, of b tr]
  note l = load_modules_locked [of b m mf "s\<lparr>mutex_factory := Some mf\<rparr>" tr]
  show "mutex_factory (fst (snd (initialize b a m (s, tr)))) \<noteq> None"
    and "allocator_lock (fst (snd (initialize b a m (s, tr)))) \<noteq> None"
    and "config_lock (fst (snd (initialize b a m (s, tr)))) \<noteq> None"
    and "algorithm_factory (fst (snd (initialize b a m (s, tr)))) =
           Some (Algorithm_Factory (modules_engines m))"
    using l by (auto simp: u Let_def)
qed

text \<open>The example: the outcome, the state and the calls of its initialization.\<close>

lemma example_initialize_ok:
  "fst (initialize (example_build True) (example_options False False) example_modules
          (Library_State, [])) = Inr ()"
  by (simp add: initialize_unfold [where mf = "Mutex_Factory 0"] Library_State_def
      example_modules_def example_options_def example_build_def Let_def)

lemma example_initialized_eq:
  "example_initialized =
     (\<lparr> mutex_factory = Some (Mutex_Factory 0),
        allocator_lock = Some (Mutex (Mutex_Factory 0) 0),
        config_lock = Some (Mutex (Mutex_Factory 0) 1),
        cached_default_allocator = None,
        algorithm_factory = Some (Algorithm_Factory [Engine 3]),
        config = [''conf/base/default_allocator'' \<mapsto> ''locking''],
        alloc_factory = [''malloc'' \<mapsto> Some (Allocator 1 ''malloc''),
                         ''locking'' \<mapsto> Some (Allocator 2 ''locking'')],
        allocators = [Allocator 1 ''malloc'', Allocator 2 ''locking''] \<rparr>,
      [Mutex_Factory_make (Mutex_Factory 0), Mutex_Factory_make (Mutex_Factory 0),
       Allocator_init (Allocator 1 ''malloc''), Allocator_init (Allocator 2 ''locking'')])"
  by (simp add: example_initialized_def initialize_def load_modules_def make_mutex_def
      add_allocator_def set_default_allocator_def set_val_def Mutex_Holder_def add_engine_def
      Library_State_def example_modules_def example_options_def example_build_def Let_def)

lemma example_config_lock: "config_lock (fst example_initialized) \<noteq> None"
  by (simp add: example_initialized_eq)

text \<open>A client's calls keep the mutex factory and both locks of an initialized state.\<close>

lemma get_allocator_fields:
  assumes "get_allocator s ty = Inr (r, s')"
  shows "mutex_factory s' = mutex_factory s" "allocator_lock s' = allocator_lock s"
    "config_lock s' = config_lock s" "algorithm_factory s' = algorithm_factory s"
    "allocators s' = allocators s" "alloc_factory s' = alloc_factory s" "config s' = config s"
  using assms
  by (auto simp: get_allocator_def Let_def split: sum.splits if_splits)

lemma add_allocator_fields:
  assumes "add_allocator a (s, tr) = Inr (s', tr')"
  shows "mutex_factory s' = mutex_factory s" "allocator_lock s' = allocator_lock s"
    "config_lock s' = config_lock s" "algorithm_factory s' = algorithm_factory s"
    "cached_default_allocator s' = cached_default_allocator s" "config s' = config s"
    "allocators s' = allocators s @ [a]" "tr' = tr @ [Allocator_init a]"
  using assms
  by (auto simp: add_allocator_def split: sum.splits)

lemma caught_set_val:
  "mutex_factory (caught s (set_val s sec k v ow)) = mutex_factory s"
  "allocator_lock (caught s (set_val s sec k v ow)) = allocator_lock s"
  "config_lock (caught s (set_val s sec k v ow)) = config_lock s"
  "algorithm_factory (caught s (set_val s sec k v ow)) = algorithm_factory s"
  "cached_default_allocator (caught s (set_val s sec k v ow)) = cached_default_allocator s"
  "allocators (caught s (set_val s sec k v ow)) = allocators s"
  "alloc_factory (caught s (set_val s sec k v ow)) = alloc_factory s"
  by (simp_all add: caught_def set_val_def Let_def split: sum.splits)

lemma caught_set_default_allocator:
  "mutex_factory (caught s (set_default_allocator s ty)) = mutex_factory s"
  "allocator_lock (caught s (set_default_allocator s ty)) = allocator_lock s"
  "config_lock (caught s (set_default_allocator s ty)) = config_lock s"
  "algorithm_factory (caught s (set_default_allocator s ty)) = algorithm_factory s"
  "allocators (caught s (set_default_allocator s ty)) = allocators s"
  "alloc_factory (caught s (set_default_allocator s ty)) = alloc_factory s"
  by (simp_all add: caught_def set_default_allocator_def set_val_def Let_def split: sum.splits)

lemma caught_get_allocator:
  "mutex_factory (caught s (map_sum id snd (get_allocator s ty))) = mutex_factory s"
  "allocator_lock (caught s (map_sum id snd (get_allocator s ty))) = allocator_lock s"
  "config_lock (caught s (map_sum id snd (get_allocator s ty))) = config_lock s"
  "algorithm_factory (caught s (map_sum id snd (get_allocator s ty))) = algorithm_factory s"
  "allocators (caught s (map_sum id snd (get_allocator s ty))) = allocators s"
  "alloc_factory (caught s (map_sum id snd (get_allocator s ty))) = alloc_factory s"
  "config (caught s (map_sum id snd (get_allocator s ty))) = config s"
  by (simp_all add: caught_def get_allocator_def Let_def split: sum.splits)

lemma caught_add_allocator:
  "mutex_factory (fst (caught (s, tr) (add_allocator a (s, tr)))) = mutex_factory s"
  "allocator_lock (fst (caught (s, tr) (add_allocator a (s, tr)))) = allocator_lock s"
  "config_lock (fst (caught (s, tr) (add_allocator a (s, tr)))) = config_lock s"
  "algorithm_factory (fst (caught (s, tr) (add_allocator a (s, tr)))) = algorithm_factory s"
  "cached_default_allocator (fst (caught (s, tr) (add_allocator a (s, tr)))) = cached_default_allocator s"
  "config (fst (caught (s, tr) (add_allocator a (s, tr)))) = config s"
  by (simp_all add: caught_def add_allocator_def split: sum.splits)

lemma apply_op_keeps:
  assumes "mutex_factory (fst st) \<noteq> None"
  shows "mutex_factory (fst (apply_op x st)) = mutex_factory (fst st)"
    and "allocator_lock (fst (apply_op x st)) = allocator_lock (fst st)"
    and "config_lock (fst (apply_op x st)) = config_lock (fst st)"
proof -
  obtain s tr where st: "st = (s, tr)" by (cases st)
  from assms have i: "\<And>b a m. snd (initialize b a m (s, tr)) = (s, tr)"
    by (simp add: st initialize_already)
  show "mutex_factory (fst (apply_op x st)) = mutex_factory (fst st)"
    and "allocator_lock (fst (apply_op x st)) = allocator_lock (fst st)"
    and "config_lock (fst (apply_op x st)) = config_lock (fst st)"
    unfolding st
    by (cases x; simp add: add_alias_def set_option_def caught_set_val
          caught_set_default_allocator caught_get_allocator caught_add_allocator i)+
qed

lemma fold_apply_op_keeps:
  "mutex_factory (fst st) \<noteq> None \<Longrightarrow>
   mutex_factory (fst (fold apply_op ops st)) = mutex_factory (fst st)
   \<and> allocator_lock (fst (fold apply_op ops st)) = allocator_lock (fst st)
   \<and> config_lock (fst (fold apply_op ops st)) = config_lock (fst st)"
  by (induction ops arbitrary: st) (simp_all add: apply_op_keeps)

text \<open>
  C1. On a \<^verbatim>\<open>Library_State\<close> on which \<^verbatim>\<open>initialize\<close> has succeeded, and on which the
  client has since made any calls, every further \<^verbatim>\<open>initialize\<close>, whatever its options and
  modules, fails with \<^verbatim>\<open>Invalid_State\<close> and leaves the whole state as it found it:
  configuration, allocators, engines, and no call made on any collaborator.
\<close>

theorem initialize_twice_fails:
  assumes "fst (initialize b a m st) = Inr ()"
  shows "initialize b' a' m' (fold apply_op ops (snd (initialize b a m st))) =
           (Inl (Invalid_State ''Library_State has already been initialized''),
            fold apply_op ops (snd (initialize b a m st)))"
proof -
  obtain s tr where st: "st = (s, tr)" by (cases st)
  have "mutex_factory (fst (snd (initialize b a m st))) \<noteq> None"
    using assms unfolding st by (rule initialize_Inr_fields)
  then have "mutex_factory (fst (fold apply_op ops (snd (initialize b a m st)))) \<noteq> None"
    by (simp add: fold_apply_op_keeps)
  then show ?thesis
    by (cases "fold apply_op ops (snd (initialize b a m st))") (simp add: initialize_already)
qed

theorem initialize_twice_fails_witness:
  "fst (initialize (example_build True) (example_options False False) example_modules (Library_State, [])) = Inr ()
   \<and> initialize (example_build True) (example_options False False) example_modules
        (fold apply_op [Op_set_option ''k'' ''v'']
           (snd (initialize (example_build True) (example_options False False) example_modules (Library_State, [])))) =
       (Inl (Invalid_State ''Library_State has already been initialized''),
        fold apply_op [Op_set_option ''k'' ''v'']
           (snd (initialize (example_build True) (example_options False False) example_modules (Library_State, []))))"
  by (intro conjI, rule example_initialize_ok, rule initialize_twice_fails, rule example_initialize_ok)

text \<open>
  C8. On a \<^verbatim>\<open>Library_State\<close> whose algorithm factory has not been constructed,
  \<^verbatim>\<open>algo_factory()\<close> fails with \<^verbatim>\<open>Invalid_State\<close> ("Uninitialized ..."); after a
  successful \<^verbatim>\<open>initialize\<close> it returns the factory, which holds the module's engines in the
  order offered.
\<close>

theorem algo_factory_needs_initialize:
  "(algorithm_factory s = None \<longrightarrow>
      algo_factory s = Inl (Invalid_State ''Uninitialized in Library_State::algo_factory''))
   \<and> (fst (initialize b a m st) = Inr () \<longrightarrow>
      algo_factory (fst (snd (initialize b a m st))) = Inr (Algorithm_Factory (modules_engines m)))"
proof (intro conjI impI)
  assume "algorithm_factory s = None"
  then show "algo_factory s = Inl (Invalid_State ''Uninitialized in Library_State::algo_factory'')"
    by (simp add: algo_factory_def)
next
  assume ok: "fst (initialize b a m st) = Inr ()"
  obtain s tr where st: "st = (s, tr)" by (cases st)
  from ok have "algorithm_factory (fst (snd (initialize b a m st))) = Some (Algorithm_Factory (modules_engines m))"
    unfolding st by (rule initialize_Inr_fields)
  then show "algo_factory (fst (snd (initialize b a m st))) = Inr (Algorithm_Factory (modules_engines m))"
    by (simp add: algo_factory_def)
qed

theorem algo_factory_needs_initialize_witness:
  "algorithm_factory Library_State = None
   \<and> algo_factory Library_State = Inl (Invalid_State ''Uninitialized in Library_State::algo_factory'')
   \<and> fst (initialize (example_build True) (example_options False False) example_modules (Library_State, [])) = Inr ()
   \<and> algo_factory (fst (snd (initialize (example_build True) (example_options False False) example_modules (Library_State, []))))
       = Inr (Algorithm_Factory [Engine 3])"
proof -
  have a: "algorithm_factory Library_State = None" by (simp add: Library_State_def)
  have e: "modules_engines example_modules = [Engine 3]" by (simp add: example_modules_def)
  from a example_initialize_ok
    algo_factory_needs_initialize [of Library_State "example_build True" "example_options False False"
      example_modules "(Library_State, [])"]
  show ?thesis unfolding e by blast
qed

text \<open>
  C7, as the claim states it, fails: the self-test check is the last step, and a call that
  asks for thread safety from modules that have no mutex factory for it fails before, with
  \<^verbatim>\<open>Invalid_State\<close>: with FIPS mode and a failing suite the error is not the self-test
  failure, and with neither flag the initialization does not succeed.
\<close>

theorem initialize_fails_before_self_tests:
  "BOTAN_HAS_SELFTEST (example_build False) \<and> fips_mode (example_options True True)
   \<and> \<not> passes_self_tests (example_build False)
   \<and> fst (initialize (example_build False) (example_options True True) example_modules (Library_State, []))
       = Inl (Invalid_State ''Could not acquire a mutex module at init'')
   \<and> fst (initialize (example_build False) (example_options True True) example_modules (Library_State, []))
       \<noteq> Inl (Self_Test_Failure ''Initialization self-tests'')
   \<and> \<not> fips_mode (example_options True False) \<and> \<not> self_test (example_options True False)
   \<and> fst (initialize (example_build True) (example_options True False) example_modules (Library_State, []))
       = Inl (Invalid_State ''Could not acquire a mutex module at init'')
   \<and> fst (initialize (example_build True) (example_options True False) example_modules (Library_State, []))
       \<noteq> Inr ()"
  by (simp add: initialize_def example_build_def example_options_def example_modules_def
      Library_State_def)

text \<open>
  C7, amended. On a \<^verbatim>\<open>Library_State\<close> not yet initialized, with modules that supply a mutex
  factory: if the self-tests are compiled in, FIPS mode or the self-test is requested and the
  suite fails, \<^verbatim>\<open>initialize\<close> throws \<^verbatim>\<open>Self_Test_Failure\<close>; if neither flag is requested,
  it succeeds, the only calls it makes are the two \<^verbatim>\<open>make()\<close> and the \<^verbatim>\<open>init()\<close> of the
  module's allocators (the suite is not called), and the suite's answer changes nothing.
\<close>

theorem initialize_self_tests:
  assumes "mutex_factory s = None" and "modules_mutex_factory m (thread_safe a) = Some mf"
  shows "(BOTAN_HAS_SELFTEST b \<and> (fips_mode a \<or> self_test a) \<and> \<not> passes_self_tests b \<longrightarrow>
            fst (initialize b a m (s, tr)) = Inl (Self_Test_Failure ''Initialization self-tests''))
       \<and> (\<not> fips_mode a \<and> \<not> self_test a \<longrightarrow>
            fst (initialize b a m (s, tr)) = Inr ()
          \<and> snd (snd (initialize b a m (s, tr))) =
              tr @ [Mutex_Factory_make mf, Mutex_Factory_make mf]
                 @ map Allocator_init (modules_allocators m mf)
          \<and> initialize (b\<lparr>passes_self_tests := x\<rparr>) a m (s, tr) = initialize b a m (s, tr))"
  using assms
  by (simp add: initialize_unfold Let_def load_modules_locked load_modules_passes)

theorem initialize_self_tests_witness:
  "mutex_factory Library_State = None
   \<and> modules_mutex_factory example_modules (thread_safe (example_options False True)) = Some (Mutex_Factory 0)
   \<and> BOTAN_HAS_SELFTEST (example_build False) \<and> fips_mode (example_options False True)
   \<and> \<not> passes_self_tests (example_build False)
   \<and> fst (initialize (example_build False) (example_options False True) example_modules (Library_State, []))
       = Inl (Self_Test_Failure ''Initialization self-tests'')
   \<and> modules_mutex_factory example_modules (thread_safe (example_options False False)) = Some (Mutex_Factory 0)
   \<and> \<not> fips_mode (example_options False False) \<and> \<not> self_test (example_options False False)
   \<and> fst (initialize (example_build False) (example_options False False) example_modules (Library_State, []))
       = Inr ()"
proof -
  have s: "mutex_factory Library_State = None" by (simp add: Library_State_def)
  have m1: "modules_mutex_factory example_modules (thread_safe (example_options False True)) = Some (Mutex_Factory 0)"
    by (simp add: example_modules_def example_options_def)
  have m2: "modules_mutex_factory example_modules (thread_safe (example_options False False)) = Some (Mutex_Factory 0)"
    by (simp add: example_modules_def example_options_def)
  have f: "BOTAN_HAS_SELFTEST (example_build False)" "fips_mode (example_options False True)"
    "\<not> passes_self_tests (example_build False)"
    "\<not> fips_mode (example_options False False)" "\<not> self_test (example_options False False)"
    by (simp_all add: example_build_def example_options_def)
  from s m1 m2 f
    initialize_self_tests [OF s m1, of "example_build False" "[]"]
    initialize_self_tests [OF s m2, of "example_build False" "[]"]
  show ?thesis by blast
qed

section \<open>Configuration: the overwrite policy\<close>

text \<open>
  C3. On a \<^verbatim>\<open>Library_State\<close> with its configuration lock, as every initialized state has,
  for every section, key and value: \<^verbatim>\<open>set\<close> without overwrite writes the value exactly
  when no entry exists under section/key or the entry there is the empty string, and leaves
  the state untouched otherwise; \<^verbatim>\<open>set\<close> with overwrite always writes. Hence after
  \<^verbatim>\<open>set(s,k,a)\<close> with \<open>a\<close> not empty (such as "A"), a \<^verbatim>\<open>set(s,k,b,false)\<close> leaves
  \<^verbatim>\<open>get(s,k) == a\<close>, and a \<^verbatim>\<open>set(s,k,b,true)\<close> makes it \<open>b\<close>.
\<close>

theorem set_overwrite_policy:
  assumes "config_lock s \<noteq> None"
  shows "set_val s sec k v False =
           Inr (if config s (sec @ ''/'' @ k) = None \<or> config s (sec @ ''/'' @ k) = Some ''''
                then s\<lparr>config := (config s)(sec @ ''/'' @ k \<mapsto> v)\<rparr> else s)
       \<and> set_val s sec k v True = Inr (s\<lparr>config := (config s)(sec @ ''/'' @ k \<mapsto> v)\<rparr>)
       \<and> (a \<noteq> '''' \<longrightarrow>
            (\<exists>s1 s2. set_val s sec k a True = Inr s1 \<and> set_val s1 sec k b False = Inr s2
                     \<and> get s2 sec k = Inr a)
          \<and> (\<exists>s1 s2. set_val s sec k a True = Inr s1 \<and> set_val s1 sec k b True = Inr s2
                     \<and> get s2 sec k = Inr b))"
proof (intro conjI impI)
  show "set_val s sec k v False =
           Inr (if config s (sec @ ''/'' @ k) = None \<or> config s (sec @ ''/'' @ k) = Some ''''
                then s\<lparr>config := (config s)(sec @ ''/'' @ k \<mapsto> v)\<rparr> else s)"
    using assms by (simp add: set_val_locked)
  show "set_val s sec k v True = Inr (s\<lparr>config := (config s)(sec @ ''/'' @ k \<mapsto> v)\<rparr>)"
    using assms by (simp add: set_val_locked)
next
  assume a: "a \<noteq> ''''"
  let ?s1 = "s\<lparr>config := (config s)(sec @ ''/'' @ k \<mapsto> a)\<rparr>"
  have 1: "set_val s sec k a True = Inr ?s1"
    using assms by (simp add: set_val_locked)
  have l1: "config_lock ?s1 \<noteq> None" using assms by simp
  have 2: "set_val ?s1 sec k b False = Inr ?s1"
    using a l1 by (simp add: set_val_locked)
  have 3: "get ?s1 sec k = Inr a"
    using l1 by (simp add: get_locked search_map_def)
  from 1 2 3
  show "\<exists>s1 s2. set_val s sec k a True = Inr s1 \<and> set_val s1 sec k b False = Inr s2
                \<and> get s2 sec k = Inr a"
    by blast
  let ?s2 = "?s1\<lparr>config := (config ?s1)(sec @ ''/'' @ k \<mapsto> b)\<rparr>"
  have 4: "set_val ?s1 sec k b True = Inr ?s2"
    using l1 by (simp add: set_val_locked)
  have 5: "get ?s2 sec k = Inr b"
    using l1 by (simp add: get_locked search_map_def)
  from 1 4 5
  show "\<exists>s1 s2. set_val s sec k a True = Inr s1 \<and> set_val s1 sec k b True = Inr s2
                \<and> get s2 sec k = Inr b"
    by blast
qed


theorem set_overwrite_policy_witness:
  "fst (initialize (example_build True) (example_options False False) example_modules
          (Library_State, [])) = Inr ()
   \<and> config_lock (fst example_initialized) \<noteq> None
   \<and> ''A'' \<noteq> ''''
   \<and> (\<exists>s1 s2. set_val (fst example_initialized) ''s'' ''k'' ''A'' True = Inr s1
            \<and> set_val s1 ''s'' ''k'' ''B'' False = Inr s2 \<and> get s2 ''s'' ''k'' = Inr ''A'')
   \<and> (\<exists>s1 s2. set_val (fst example_initialized) ''s'' ''k'' ''A'' True = Inr s1
            \<and> set_val s1 ''s'' ''k'' ''B'' True = Inr s2 \<and> get s2 ''s'' ''k'' = Inr ''B'')"
proof -
  have a: "''A'' \<noteq> ''''" by simp
  from example_initialize_ok example_config_lock a
    set_overwrite_policy [OF example_config_lock, of "''s''" "''k''" "''v''" "''A''" "''B''"]
  show ?thesis by blast
qed

section \<open>Setting no default allocator\<close>

text \<open>
  C10. \<^verbatim>\<open>set_default_allocator("")\<close> changes nothing, on every state: with the allocator
  lock in place it returns the state it was given, and without it the \<^verbatim>\<open>Mutex_Holder\<close>
  throws before anything is written; either way the client goes on with the same state,
  its configuration and its cached default allocator, so a following
  \<^verbatim>\<open>get_allocator("")\<close> answers as it would have before.
\<close>

theorem set_default_allocator_empty_noop:
  "set_default_allocator s '''' =
     (if allocator_lock s = None
      then Inl (Invalid_Argument ''Mutex_Holder: Argument was NULL'') else Inr s)
   \<and> caught s (set_default_allocator s '''') = s
   \<and> apply_op (Op_set_default_allocator '''') (s, tr) = (s, tr)
   \<and> get_allocator (caught s (set_default_allocator s '''')) '''' = get_allocator s ''''"
  by (cases "allocator_lock s") (simp_all add: set_default_allocator_def Mutex_Holder_def caught_def)

theorem set_default_allocator_empty_noop_witness:
  "set_default_allocator (fst example_initialized) '''' = Inr (fst example_initialized)
   \<and> set_default_allocator Library_State '''' =
       Inl (Invalid_Argument ''Mutex_Holder: Argument was NULL'')
   \<and> caught Library_State (set_default_allocator Library_State '''') = Library_State"
proof -
  have a: "allocator_lock (fst example_initialized) \<noteq> None"
    by (simp add: example_initialized_eq)
  have b: "allocator_lock Library_State = None"
    by (simp add: Library_State_def)
  from a b set_default_allocator_empty_noop [of "fst example_initialized" "[]"]
    set_default_allocator_empty_noop [of Library_State "[]"]
  show ?thesis by (simp add: caught_def)
qed

section \<open>The global state: set is swap, then delete\<close>

text \<open>
  C5. \<^verbatim>\<open>swap_global_state(n)\<close> returns the state installed before and installs \<open>n\<close>,
  and nothing else changes: no object ends and no destructor runs. \<^verbatim>\<open>set_global_state(n)\<close>
  is that swap followed by the deletion of the state it returned, and agrees with the
  spec's wording (install \<open>n\<close>, destroying what was installed).
\<close>

theorem set_global_state_is_swap_then_delete:
  "fst (swap_global_state n pr) = global_lib_state pr
   \<and> snd (swap_global_state n pr) = pr\<lparr>global_lib_state := n\<rparr>
   \<and> set_global_state n pr =
       delete_Library_State (fst (swap_global_state n pr)) (snd (swap_global_state n pr))
   \<and> set_global_state n pr = spec_set_global_state n pr"
  by (simp add: swap_global_state_def set_global_state_def spec_set_global_state_def
      delete_Library_State_def Let_def split: option.splits)

section \<open>Aliases\<close>

text \<open>
  With the configuration lock in place, \<^verbatim>\<open>is_set\<close> and \<^verbatim>\<open>get\<close> on the alias section
  read the alias table, and one turn of the loop of \<^verbatim>\<open>deref_alias\<close> follows it.
\<close>

lemma is_set_alias:
  "config_lock s \<noteq> None \<Longrightarrow> is_set s ''alias'' k = Inr (has_alias s k)"
  by (cases "config s (''alias'' @ ''/'' @ k)")
    (simp_all add: is_set_locked has_alias_def search_map_found_def)

lemma get_alias:
  "config_lock s \<noteq> None \<Longrightarrow> get s ''alias'' k = Inr (alias_target s k)"
  by (simp add: get_locked alias_target_def)

lemma add_alias_locked:
  "config_lock s \<noteq> None \<Longrightarrow>
   add_alias s key val = Inr (s\<lparr>config := (config s)(''alias'' @ ''/'' @ key \<mapsto> val)\<rparr>)"
  by (simp add: add_alias_def set_val_locked)

lemma deref_alias_loop_unset:
  "config_lock s \<noteq> None \<Longrightarrow> \<not> has_alias s k \<Longrightarrow> deref_alias_loop s k = Some (Inr k)"
  by (subst deref_alias_loop.simps) (simp add: is_set_alias)

lemma deref_alias_loop_set:
  "config_lock s \<noteq> None \<Longrightarrow> has_alias s k \<Longrightarrow>
   deref_alias_loop s k = deref_alias_loop s (alias_target s k)"
  by (subst deref_alias_loop.simps) (simp add: is_set_alias get_alias)

lemma deref_alias_loop_unlocked:
  "config_lock s = None \<Longrightarrow>
   deref_alias_loop s k = Some (Inl (Invalid_Argument ''Mutex_Holder: Argument was NULL''))"
  by (subst deref_alias_loop.simps) (simp add: is_set_def Mutex_Holder_def)

lemma deref_alias_loop_reaches:
  assumes l: "config_lock s \<noteq> None"
  shows "\<not> has_alias s ((alias_target s ^^ n) key) \<Longrightarrow>
   \<exists>m\<le>n. deref_alias_loop s key = Some (Inr ((alias_target s ^^ m) key))
          \<and> \<not> has_alias s ((alias_target s ^^ m) key)"
proof (induction n arbitrary: key)
  case 0
  then show ?case by (simp add: deref_alias_loop_unset [OF l])
next
  case (Suc n)
  show ?case
  proof (cases "has_alias s key")
    case False
    then have "deref_alias_loop s key = Some (Inr ((alias_target s ^^ 0) key))
               \<and> \<not> has_alias s ((alias_target s ^^ 0) key)"
      by (simp add: deref_alias_loop_unset [OF l])
    then show ?thesis by blast
  next
    case True
    from Suc.prems have "\<not> has_alias s ((alias_target s ^^ n) (alias_target s key))"
      by (simp add: funpow_swap1)
    from Suc.IH [OF this] obtain m where m: "m \<le> n"
      "deref_alias_loop s (alias_target s key) = Some (Inr ((alias_target s ^^ m) (alias_target s key)))"
      "\<not> has_alias s ((alias_target s ^^ m) (alias_target s key))"
      by blast
    have "Suc m \<le> Suc n" using m(1) by simp
    moreover have "deref_alias_loop s key = Some (Inr ((alias_target s ^^ Suc m) key))"
      using True m(2) by (simp add: deref_alias_loop_set [OF l] funpow_swap1)
    moreover have "\<not> has_alias s ((alias_target s ^^ Suc m) key)"
      using m(3) by (simp add: funpow_swap1)
    ultimately show ?thesis by blast
  qed
qed

lemma deref_alias_loop_Some_reaches:
  assumes "deref_alias_loop s key = Some r"
  shows "config_lock s \<noteq> None \<longrightarrow> (\<exists>n. \<not> has_alias s ((alias_target s ^^ n) key))"
proof (rule deref_alias_loop.raw_induct
    [where P = "\<lambda>s key r. config_lock s \<noteq> None \<longrightarrow> (\<exists>n. \<not> has_alias s ((alias_target s ^^ n) key))",
     OF _ assms])
  fix f :: "library_state \<Rightarrow> string \<Rightarrow> (error + string) option" and s key r
  assume IH: "\<And>s k y. f s k = Some y \<Longrightarrow>
      config_lock s \<noteq> None \<longrightarrow> (\<exists>n. \<not> has_alias s ((alias_target s ^^ n) k))"
    and eq: "(case is_set s ''alias'' key of
                Inl e \<Rightarrow> Some (Inl e)
              | Inr b \<Rightarrow>
                  if b
                  then (case get s ''alias'' key of
                          Inl e \<Rightarrow> Some (Inl e)
                        | Inr r \<Rightarrow> f s r)
                  else Some (Inr key)) = Some r"
  show "config_lock s \<noteq> None \<longrightarrow> (\<exists>n. \<not> has_alias s ((alias_target s ^^ n) key))"
  proof
    assume l: "config_lock s \<noteq> None"
    show "\<exists>n. \<not> has_alias s ((alias_target s ^^ n) key)"
    proof (cases "has_alias s key")
      case True
      with eq l have "f s (alias_target s key) = Some r"
        by (simp add: is_set_alias get_alias)
      from IH [OF this] l obtain n
        where "\<not> has_alias s ((alias_target s ^^ n) (alias_target s key))"
        by blast
      then have "\<not> has_alias s ((alias_target s ^^ Suc n) key)"
        by (simp add: funpow_swap1)
      then show ?thesis by blast
    next
      case False
      then have "\<not> has_alias s ((alias_target s ^^ 0) key)" by simp
      then show ?thesis by blast
    qed
  qed
qed

lemma deref_alias_loop_cycle:
  assumes "config_lock s \<noteq> None" and "\<And>n. has_alias s ((alias_target s ^^ n) key)"
  shows "deref_alias_loop s key = None"
proof (cases "deref_alias_loop s key")
  case None
  then show ?thesis .
next
  case (Some r)
  from deref_alias_loop_Some_reaches [OF this] assms show ?thesis by blast
qed

text \<open>
  The alias tables of the examples, entered on the initialized example state: the chain
  x, y, z and the two cycles, on which every name has an alias.
\<close>

lemma example_chain_state:
  "fst (fold apply_op [Op_add_alias ''x'' ''y'', Op_add_alias ''y'' ''z''] example_initialized) =
     (fst example_initialized)
       \<lparr>config := [''conf/base/default_allocator'' \<mapsto> ''locking'',
                   ''alias/x'' \<mapsto> ''y'', ''alias/y'' \<mapsto> ''z'']\<rparr>"
  by (simp add: example_initialized_eq caught_def add_alias_def set_val_def Mutex_Holder_def Let_def)

lemma example_cycle_state:
  "fst (fold apply_op [Op_add_alias ''a'' ''b'', Op_add_alias ''b'' ''a''] example_initialized) =
     (fst example_initialized)
       \<lparr>config := [''conf/base/default_allocator'' \<mapsto> ''locking'',
                   ''alias/a'' \<mapsto> ''b'', ''alias/b'' \<mapsto> ''a'']\<rparr>"
  by (simp add: example_initialized_eq caught_def add_alias_def set_val_def Mutex_Holder_def Let_def)

lemma example_self_state:
  "fst (fold apply_op [Op_add_alias ''a'' ''a''] example_initialized) =
     (fst example_initialized)
       \<lparr>config := [''conf/base/default_allocator'' \<mapsto> ''locking'', ''alias/a'' \<mapsto> ''a'']\<rparr>"
  by (simp add: example_initialized_eq caught_def add_alias_def set_val_def Mutex_Holder_def Let_def)

lemma alias_cycle_has_alias:
  assumes "alias_target s a = b" "alias_target s b = a" "has_alias s a" "has_alias s b"
  shows "has_alias s ((alias_target s ^^ n) a)"
proof -
  have "(alias_target s ^^ n) a = a \<or> (alias_target s ^^ n) a = b"
  proof (induction n)
    case 0
    show ?case by simp
  next
    case (Suc n)
    from Suc.IH show ?case
    proof
      assume "(alias_target s ^^ n) a = a"
      then have "(alias_target s ^^ Suc n) a = b" by (simp add: assms(1))
      then show ?thesis ..
    next
      assume "(alias_target s ^^ n) a = b"
      then have "(alias_target s ^^ Suc n) a = a" by (simp add: assms(2))
      then show ?thesis ..
    qed
  qed
  then show ?thesis
  proof
    assume "(alias_target s ^^ n) a = a"
    with assms(3) show ?thesis by simp
  next
    assume "(alias_target s ^^ n) a = b"
    with assms(4) show ?thesis by simp
  qed
qed

lemma example_cycle_has_alias:
  "has_alias (fst (fold apply_op [Op_add_alias ''a'' ''b'', Op_add_alias ''b'' ''a''] example_initialized))
     ((alias_target (fst (fold apply_op [Op_add_alias ''a'' ''b'', Op_add_alias ''b'' ''a''] example_initialized)) ^^ n) ''a'')"
  unfolding example_cycle_state
  by (rule alias_cycle_has_alias [where b = "''b''"])
    (simp_all add: alias_target_def has_alias_def search_map_def)

lemma example_self_has_alias:
  "has_alias (fst (fold apply_op [Op_add_alias ''a'' ''a''] example_initialized))
     ((alias_target (fst (fold apply_op [Op_add_alias ''a'' ''a''] example_initialized)) ^^ n) ''a'')"
  unfolding example_self_state
  by (rule alias_cycle_has_alias [where b = "''a''"])
    (simp_all add: alias_target_def has_alias_def search_map_def)

text \<open>
  C9. On a \<^verbatim>\<open>Library_State\<close> with its configuration lock, as every initialized state has:
  for every key with no alias entry, \<^verbatim>\<open>deref_alias\<close> returns the key unchanged; and
  \<^verbatim>\<open>add_alias(x,y)\<close> and \<^verbatim>\<open>add_alias(y,z)\<close> succeed, after which, with no alias entry for
  \<open>z\<close>, \<^verbatim>\<open>deref_alias(x)\<close> returns \<open>z\<close>: the chain is followed to the last name.
\<close>

theorem deref_alias_follows_chain:
  assumes "config_lock s \<noteq> None"
  shows "(is_set s ''alias'' key = Inr False \<longrightarrow> deref_alias s key = Some (Inr key))
       \<and> (\<exists>s1 s2. add_alias s x y = Inr s1 \<and> add_alias s1 y z = Inr s2
             \<and> (is_set s2 ''alias'' z = Inr False \<longrightarrow> deref_alias s2 x = Some (Inr z)))"
proof (intro conjI impI)
  assume "is_set s ''alias'' key = Inr False"
  with assms have "\<not> has_alias s key" by (simp add: is_set_alias)
  with assms show "deref_alias s key = Some (Inr key)"
    by (simp add: deref_alias_def deref_alias_loop_unset)
next
  define s1 where "s1 = s\<lparr>config := (config s)(''alias'' @ ''/'' @ x \<mapsto> y)\<rparr>"
  define t where "t = s1\<lparr>config := (config s1)(''alias'' @ ''/'' @ y \<mapsto> z)\<rparr>"
  have l1: "config_lock s1 \<noteq> None" and l: "config_lock t \<noteq> None"
    using assms by (simp_all add: s1_def t_def)
  have 1: "add_alias s x y = Inr s1"
    unfolding s1_def using assms by (rule add_alias_locked)
  have 2: "add_alias s1 y z = Inr t"
    unfolding t_def using l1 by (rule add_alias_locked)
  have 3: "deref_alias t x = Some (Inr z)" if z: "is_set t ''alias'' z = Inr False"
  proof -
    from z l have nz: "\<not> has_alias t z" by (simp add: is_set_alias)
    have y: "has_alias t y" "alias_target t y = z"
      by (simp_all add: t_def has_alias_def alias_target_def search_map_def)
    have x: "has_alias t x" "alias_target t x = (if x = y then z else y)"
      by (simp_all add: t_def s1_def has_alias_def alias_target_def search_map_def)
    have last: "deref_alias_loop t z = Some (Inr z)"
      using l nz by (rule deref_alias_loop_unset)
    have mid: "deref_alias_loop t y = Some (Inr z)"
      using y last by (simp add: deref_alias_loop_set [OF l])
    have "deref_alias_loop t x = deref_alias_loop t (if x = y then z else y)"
      using x by (simp only: deref_alias_loop_set [OF l])
    also have "\<dots> = Some (Inr z)"
      using mid last by (cases "x = y") simp_all
    finally show ?thesis by (simp only: deref_alias_def)
  qed
  from 1 2 3
  show "\<exists>s1 s2. add_alias s x y = Inr s1 \<and> add_alias s1 y z = Inr s2
             \<and> (is_set s2 ''alias'' z = Inr False \<longrightarrow> deref_alias s2 x = Some (Inr z))"
    by blast
qed

theorem deref_alias_follows_chain_witness:
  "fst (initialize (example_build True) (example_options False False) example_modules
          (Library_State, [])) = Inr ()
   \<and> config_lock (fst example_initialized) \<noteq> None
   \<and> is_set (fst example_initialized) ''alias'' ''z'' = Inr False
   \<and> deref_alias (fst example_initialized) ''z'' = Some (Inr ''z'')
   \<and> is_set (fst (fold apply_op [Op_add_alias ''x'' ''y'', Op_add_alias ''y'' ''z''] example_initialized))
        ''alias'' ''z'' = Inr False
   \<and> deref_alias (fst (fold apply_op [Op_add_alias ''x'' ''y'', Op_add_alias ''y'' ''z''] example_initialized))
        ''x'' = Some (Inr ''z'')"
proof -
  let ?s = "fst example_initialized"
  let ?t = "fst (fold apply_op [Op_add_alias ''x'' ''y'', Op_add_alias ''y'' ''z''] example_initialized)"
  have a: "is_set ?s ''alias'' ''z'' = Inr False"
    by (simp add: example_initialized_eq is_set_def Mutex_Holder_def search_map_found_def)
  have b: "is_set ?t ''alias'' ''z'' = Inr False"
    unfolding example_chain_state
    by (simp add: example_initialized_eq is_set_def Mutex_Holder_def search_map_found_def)
  from deref_alias_follows_chain [OF example_config_lock, of "''z''" "''x''" "''y''" "''z''"]
  obtain s1 s2 where c: "deref_alias ?s ''z'' = Some (Inr ''z'')"
    and s1: "add_alias ?s ''x'' ''y'' = Inr s1" and s2: "add_alias s1 ''y'' ''z'' = Inr s2"
    and d: "is_set s2 ''alias'' ''z'' = Inr False \<longrightarrow> deref_alias s2 ''x'' = Some (Inr ''z'')"
    using a by blast
  obtain s0 tr0 where e: "example_initialized = (s0, tr0)" by (cases example_initialized)
  have "?t = s2"
    using s1 s2 unfolding e by (simp add: caught_def)
  with b d have "deref_alias ?t ''x'' = Some (Inr ''z'')" by simp
  with example_initialize_ok example_config_lock a b c show ?thesis by blast
qed

text \<open>
  C2, as the claim states it, fails: on the initialized example state, with the entries
  a to b and b to a, or a to a, \<^verbatim>\<open>deref_alias("a")\<close> never returns.
\<close>

theorem deref_alias_cycle_never_returns:
  "fst (initialize (example_build True) (example_options False False) example_modules
          (Library_State, [])) = Inr ()
   \<and> deref_alias (fst (fold apply_op [Op_add_alias ''a'' ''b'', Op_add_alias ''b'' ''a'']
                         example_initialized)) ''a'' = None
   \<and> deref_alias (fst (fold apply_op [Op_add_alias ''a'' ''a''] example_initialized)) ''a'' = None"
proof (intro conjI)
  show "fst (initialize (example_build True) (example_options False False) example_modules
          (Library_State, [])) = Inr ()"
    by (rule example_initialize_ok)
  show "deref_alias (fst (fold apply_op [Op_add_alias ''a'' ''b'', Op_add_alias ''b'' ''a'']
                         example_initialized)) ''a'' = None"
    unfolding deref_alias_def
    by (rule deref_alias_loop_cycle [OF _ example_cycle_has_alias])
      (simp only: example_cycle_state, simp add: example_config_lock)
  show "deref_alias (fst (fold apply_op [Op_add_alias ''a'' ''a''] example_initialized)) ''a'' = None"
    unfolding deref_alias_def
    by (rule deref_alias_loop_cycle [OF _ example_self_has_alias])
      (simp only: example_self_state, simp add: example_config_lock)
qed

text \<open>
  C2, amended. On a \<^verbatim>\<open>Library_State\<close> with its configuration lock, as every initialized
  state has, \<^verbatim>\<open>is_set\<close> and \<^verbatim>\<open>get\<close> read the alias table, and \<^verbatim>\<open>deref_alias(key)\<close>
  returns when following the alias entries from \<open>key\<close> reaches a name with no alias entry
  (within \<open>n\<close> steps here), and then the name returned is on the chain and has no alias
  entry; when every name on the chain has an alias entry, as on a cycle, the call does not
  return.
\<close>

theorem deref_alias_returns_iff_chain_ends:
  assumes "config_lock s \<noteq> None"
  shows "is_set s ''alias'' k = Inr (has_alias s k)
       \<and> get s ''alias'' k = Inr (alias_target s k)
       \<and> (\<not> has_alias s ((alias_target s ^^ n) key) \<longrightarrow>
            (\<exists>m\<le>n. deref_alias s key = Some (Inr ((alias_target s ^^ m) key))
                  \<and> \<not> has_alias s ((alias_target s ^^ m) key)))
       \<and> ((\<forall>i. has_alias s ((alias_target s ^^ i) key)) \<longrightarrow> deref_alias s key = None)"
  unfolding deref_alias_def
  using is_set_alias [OF assms, of k] get_alias [OF assms, of k]
    deref_alias_loop_reaches [OF assms, of n key] deref_alias_loop_cycle [OF assms, of key]
  by blast

theorem deref_alias_returns_iff_chain_ends_witness:
  "config_lock (fst (fold apply_op [Op_add_alias ''x'' ''y'', Op_add_alias ''y'' ''z''] example_initialized)) \<noteq> None
   \<and> \<not> has_alias (fst (fold apply_op [Op_add_alias ''x'' ''y'', Op_add_alias ''y'' ''z''] example_initialized))
        ((alias_target (fst (fold apply_op [Op_add_alias ''x'' ''y'', Op_add_alias ''y'' ''z''] example_initialized)) ^^ 2) ''x'')
   \<and> (\<exists>m\<le>2. deref_alias (fst (fold apply_op [Op_add_alias ''x'' ''y'', Op_add_alias ''y'' ''z''] example_initialized)) ''x''
              = Some (Inr ((alias_target (fst (fold apply_op [Op_add_alias ''x'' ''y'', Op_add_alias ''y'' ''z''] example_initialized)) ^^ m) ''x''))
            \<and> \<not> has_alias (fst (fold apply_op [Op_add_alias ''x'' ''y'', Op_add_alias ''y'' ''z''] example_initialized))
                 ((alias_target (fst (fold apply_op [Op_add_alias ''x'' ''y'', Op_add_alias ''y'' ''z''] example_initialized)) ^^ m) ''x''))
   \<and> config_lock (fst (fold apply_op [Op_add_alias ''a'' ''a''] example_initialized)) \<noteq> None
   \<and> (\<forall>i. has_alias (fst (fold apply_op [Op_add_alias ''a'' ''a''] example_initialized))
             ((alias_target (fst (fold apply_op [Op_add_alias ''a'' ''a''] example_initialized)) ^^ i) ''a''))
   \<and> deref_alias (fst (fold apply_op [Op_add_alias ''a'' ''a''] example_initialized)) ''a'' = None"
proof -
  let ?t = "fst (fold apply_op [Op_add_alias ''x'' ''y'', Op_add_alias ''y'' ''z''] example_initialized)"
  let ?c = "fst (fold apply_op [Op_add_alias ''a'' ''a''] example_initialized)"
  have lt: "config_lock ?t \<noteq> None"
    unfolding example_chain_state by (simp add: example_config_lock)
  have lc: "config_lock ?c \<noteq> None"
    unfolding example_self_state by (simp add: example_config_lock)
  have a: "\<not> has_alias ?t ((alias_target ?t ^^ 2) ''x'')"
    unfolding example_chain_state
    by (simp add: numeral_2_eq_2 has_alias_def alias_target_def search_map_def)
  have b: "\<forall>i. has_alias ?c ((alias_target ?c ^^ i) ''a'')"
    using example_self_has_alias by blast
  from lt lc a b
    deref_alias_returns_iff_chain_ends [OF lt, of "''x''" 2 "''x''"]
    deref_alias_returns_iff_chain_ends [OF lc, of "''a''" 0 "''a''"]
  show ?thesis by blast
qed

section \<open>The default allocator and its cache\<close>

text \<open>What \<^verbatim>\<open>get_allocator("")\<close> answers with both locks in place, and what keeps the cache.\<close>

lemma get_allocator_cached:
  "allocator_lock s \<noteq> None \<Longrightarrow> cached_default_allocator s = Some p \<Longrightarrow>
   get_allocator s '''' = Inr (Some p, s)"
  by (simp add: get_allocator_def Mutex_Holder_Some)

lemma get_allocator_miss:
  "allocator_lock s \<noteq> None \<Longrightarrow> config_lock s \<noteq> None \<Longrightarrow> cached_default_allocator s = None \<Longrightarrow>
   get_allocator s '''' =
     Inr (let chosen = (case config s ''conf/base/default_allocator'' of
                          None \<Rightarrow> ''malloc''
                        | Some c \<Rightarrow> if c = '''' then ''malloc'' else c);
              found = (case alloc_factory s chosen of None \<Rightarrow> None | Some a \<Rightarrow> a)
          in (found, s\<lparr>cached_default_allocator := found\<rparr>))"
  by (simp add: get_allocator_def Mutex_Holder_Some option_def get_locked search_map_def Let_def
      split: option.splits)

lemma get_allocator_twice:
  assumes "allocator_lock s \<noteq> None" "config_lock s \<noteq> None"
  shows "\<exists>r s1 s2. get_allocator s '''' = Inr (r, s1) \<and> get_allocator s1 '''' = Inr (r, s2)"
proof (cases "cached_default_allocator s")
  case (Some p)
  with assms have "get_allocator s '''' = Inr (Some p, s)" by (simp add: get_allocator_cached)
  then show ?thesis by blast
next
  case None
  define chosen where "chosen = (case config s ''conf/base/default_allocator'' of
                          None \<Rightarrow> ''malloc''
                        | Some c \<Rightarrow> if c = '''' then ''malloc'' else c)"
  define found where "found = (case alloc_factory s chosen of None \<Rightarrow> None | Some a \<Rightarrow> a)"
  define s1 where "s1 = s\<lparr>cached_default_allocator := found\<rparr>"
  have 1: "get_allocator s '''' = Inr (found, s1)"
    using assms None by (simp add: get_allocator_miss chosen_def found_def s1_def Let_def)
  have l: "allocator_lock s1 \<noteq> None" "config_lock s1 \<noteq> None"
    using assms by (simp_all add: s1_def)
  show ?thesis
  proof (cases found)
    case (Some p)
    then have "cached_default_allocator s1 = Some p" by (simp add: s1_def)
    with l have "get_allocator s1 '''' = Inr (Some p, s1)" by (simp add: get_allocator_cached)
    with 1 Some show ?thesis by blast
  next
    case None
    then have c: "cached_default_allocator s1 = None" by (simp add: s1_def)
    have "get_allocator s1 '''' = Inr (found, s1\<lparr>cached_default_allocator := found\<rparr>)"
      using l c by (simp add: get_allocator_miss Let_def)
        (simp add: s1_def chosen_def found_def)
    with 1 show ?thesis by blast
  qed
qed

lemma get_allocator_caches:
  "get_allocator s '''' = Inr (Some p, s1) \<Longrightarrow>
   cached_default_allocator s1 = Some p \<and> allocator_lock s1 \<noteq> None"
  by (auto simp: get_allocator_def Mutex_Holder_def Let_def split: sum.splits if_splits option.splits)

lemma caught_get_allocator_cached:
  "cached_default_allocator s = Some p \<Longrightarrow>
   cached_default_allocator (caught s (map_sum id snd (get_allocator s ty))) = Some p"
  by (simp add: caught_def get_allocator_def split: sum.splits)

lemma apply_op_cached:
  assumes "\<not> sets_default_allocator x" "cached_default_allocator (fst st) = Some p"
  shows "cached_default_allocator (fst (apply_op x st)) = Some p"
    and "allocator_lock (fst (apply_op x st)) = allocator_lock (fst st)"
proof -
  obtain s tr where st: "st = (s, tr)" by (cases st)
  show "cached_default_allocator (fst (apply_op x st)) = Some p"
    and "allocator_lock (fst (apply_op x st)) = allocator_lock (fst st)"
    using assms unfolding st
    by (cases x; simp add: add_alias_def set_option_def caught_set_val
          caught_get_allocator caught_add_allocator caught_get_allocator_cached)+
qed

lemma fold_apply_op_cached:
  "list_all (\<lambda>x. \<not> sets_default_allocator x) ops \<Longrightarrow> cached_default_allocator (fst st) = Some p \<Longrightarrow>
   cached_default_allocator (fst (fold apply_op ops st)) = Some p
   \<and> allocator_lock (fst (fold apply_op ops st)) = allocator_lock (fst st)"
  by (induction ops arbitrary: st) (simp_all add: apply_op_cached)

text \<open>
  C4, as the claim states it, fails: a null answer is not kept in the cache. On the
  initialized example state with the default allocator configured as "mmap", a type
  not yet registered, \<^verbatim>\<open>get_allocator("")\<close> answers null; after an \<^verbatim>\<open>add_allocator\<close> of
  a provider of that type, and no \<^verbatim>\<open>set_default_allocator\<close>, the next
  \<^verbatim>\<open>get_allocator("")\<close> answers that provider.
\<close>

theorem get_allocator_twice_differs:
  "fst (initialize (example_build True) (example_options False False) example_modules
          (Library_State, [])) = Inr ()
   \<and> map_sum id fst (get_allocator (fst (fold apply_op
        [Op_set_option ''base/default_allocator'' ''mmap''] example_initialized)) '''')
       = Inr None
   \<and> \<not> sets_default_allocator (Op_add_allocator (Allocator 9 ''mmap''))
   \<and> map_sum id fst (get_allocator (fst (fold apply_op
        [Op_set_option ''base/default_allocator'' ''mmap'', Op_get_allocator '''',
         Op_add_allocator (Allocator 9 ''mmap'')] example_initialized)) '''')
       = Inr (Some (Allocator 9 ''mmap''))"
proof -
  have "map_sum id fst (get_allocator (fst (fold apply_op
        [Op_set_option ''base/default_allocator'' ''mmap''] example_initialized)) '''')
       = Inr None"
    by (simp add: example_initialized_eq caught_def set_option_def set_val_def get_allocator_def
        option_def get_def Mutex_Holder_def search_map_def Let_def)
  moreover have "map_sum id fst (get_allocator (fst (fold apply_op
        [Op_set_option ''base/default_allocator'' ''mmap'', Op_get_allocator '''',
         Op_add_allocator (Allocator 9 ''mmap'')] example_initialized)) '''')
       = Inr (Some (Allocator 9 ''mmap''))"
    by (simp add: example_initialized_eq caught_def set_option_def set_val_def get_allocator_def
        add_allocator_def option_def get_def Mutex_Holder_def search_map_def Let_def)
  ultimately show ?thesis
    using example_initialize_ok by simp
qed

text \<open>
  C4, amended. On a \<^verbatim>\<open>Library_State\<close> with both locks, as every initialized state has:
  two calls of \<^verbatim>\<open>get_allocator("")\<close> in a row return the same answer; once a call has
  returned a provider, every later call returns it too, whatever the client does in between
  short of setting the default allocator. On a cache miss \<^verbatim>\<open>get_allocator("")\<close> looks the
  value of \<^verbatim>\<open>conf/base/default_allocator\<close> up in the name table, "malloc" when the key is
  unset or empty, and stores what it finds in the cache. After \<^verbatim>\<open>set_default_allocator(t)\<close>
  with \<open>t\<close> not empty and registered for the provider \<open>p\<close>, \<^verbatim>\<open>get_allocator("")\<close>
  returns \<open>p\<close>.
\<close>

theorem default_allocator_cache:
  assumes "allocator_lock s \<noteq> None" and "config_lock s \<noteq> None"
  shows "(\<exists>r s1 s2. get_allocator s '''' = Inr (r, s1) \<and> get_allocator s1 '''' = Inr (r, s2))
   \<and> (get_allocator s '''' = Inr (Some p, s') \<and> list_all (\<lambda>x. \<not> sets_default_allocator x) ops \<longrightarrow>
        (\<exists>s''. get_allocator (fst (fold apply_op ops (s', tr))) '''' = Inr (Some p, s'')))
   \<and> (cached_default_allocator s = None \<longrightarrow>
        get_allocator s '''' =
          Inr (let chosen = (case config s ''conf/base/default_allocator'' of
                               None \<Rightarrow> ''malloc''
                             | Some c \<Rightarrow> if c = '''' then ''malloc'' else c);
                   found = (case alloc_factory s chosen of None \<Rightarrow> None | Some a \<Rightarrow> a)
               in (found, s\<lparr>cached_default_allocator := found\<rparr>)))
   \<and> (t \<noteq> '''' \<and> alloc_factory s t = Some (Some p) \<longrightarrow>
        (\<exists>s1 s2. set_default_allocator s t = Inr s1 \<and> get_allocator s1 '''' = Inr (Some p, s2)))"
proof (intro conjI impI)
  show "\<exists>r s1 s2. get_allocator s '''' = Inr (r, s1) \<and> get_allocator s1 '''' = Inr (r, s2)"
    using assms by (rule get_allocator_twice)
next
  assume a: "get_allocator s '''' = Inr (Some p, s') \<and> list_all (\<lambda>x. \<not> sets_default_allocator x) ops"
  then have c: "cached_default_allocator s' = Some p" and l: "allocator_lock s' \<noteq> None"
    using get_allocator_caches [of s p s'] by blast+
  from a c have "cached_default_allocator (fst (fold apply_op ops (s', tr))) = Some p
      \<and> allocator_lock (fst (fold apply_op ops (s', tr))) = allocator_lock s'"
    using fold_apply_op_cached [of ops "(s', tr)" p] by simp
  with l have "get_allocator (fst (fold apply_op ops (s', tr))) '''' =
      Inr (Some p, fst (fold apply_op ops (s', tr)))"
    by (simp add: get_allocator_cached)
  then show "\<exists>s''. get_allocator (fst (fold apply_op ops (s', tr))) '''' = Inr (Some p, s'')"
    by blast
next
  assume "cached_default_allocator s = None"
  with assms show "get_allocator s '''' =
          Inr (let chosen = (case config s ''conf/base/default_allocator'' of
                               None \<Rightarrow> ''malloc''
                             | Some c \<Rightarrow> if c = '''' then ''malloc'' else c);
                   found = (case alloc_factory s chosen of None \<Rightarrow> None | Some a \<Rightarrow> a)
               in (found, s\<lparr>cached_default_allocator := found\<rparr>))"
    by (rule get_allocator_miss)
next
  assume t: "t \<noteq> '''' \<and> alloc_factory s t = Some (Some p)"
  define s1 where "s1 = s\<lparr>config := (config s)(''conf/base/default_allocator'' \<mapsto> t),
                 cached_default_allocator := None\<rparr>"
  have 1: "set_default_allocator s t = Inr s1"
    using assms t by (simp add: set_default_allocator_locked s1_def)
  have "get_allocator s1 '''' = Inr (Some p, s1\<lparr>cached_default_allocator := Some p\<rparr>)"
    using assms t by (simp add: get_allocator_miss s1_def Let_def)
  with 1 show "\<exists>s1 s2. set_default_allocator s t = Inr s1 \<and> get_allocator s1 '''' = Inr (Some p, s2)"
    by blast
qed

theorem default_allocator_cache_witness:
  "allocator_lock (fst example_initialized) \<noteq> None
   \<and> config_lock (fst example_initialized) \<noteq> None
   \<and> cached_default_allocator (fst example_initialized) = None
   \<and> get_allocator (fst example_initialized) '''' =
       Inr (Some (Allocator 2 ''locking''),
            (fst example_initialized)\<lparr>cached_default_allocator := Some (Allocator 2 ''locking'')\<rparr>)
   \<and> list_all (\<lambda>x. \<not> sets_default_allocator x)
        [Op_add_allocator (Allocator 5 ''locking''), Op_set_option ''base/default_allocator'' ''malloc'']
   \<and> (\<exists>s''. get_allocator (fst (fold apply_op
          [Op_add_allocator (Allocator 5 ''locking''), Op_set_option ''base/default_allocator'' ''malloc'']
          ((fst example_initialized)\<lparr>cached_default_allocator := Some (Allocator 2 ''locking'')\<rparr>, [])))
          '''' = Inr (Some (Allocator 2 ''locking''), s''))
   \<and> ''malloc'' \<noteq> ''''
   \<and> alloc_factory (fst example_initialized) ''malloc'' = Some (Some (Allocator 1 ''malloc''))
   \<and> (\<exists>s1 s2. set_default_allocator (fst example_initialized) ''malloc'' = Inr s1
            \<and> get_allocator s1 '''' = Inr (Some (Allocator 1 ''malloc''), s2))"
proof -
  let ?s = "fst example_initialized"
  let ?s' = "?s\<lparr>cached_default_allocator := Some (Allocator 2 ''locking'')\<rparr>"
  let ?ops = "[Op_add_allocator (Allocator 5 ''locking''), Op_set_option ''base/default_allocator'' ''malloc'']"
  have l: "allocator_lock ?s \<noteq> None" "config_lock ?s \<noteq> None"
    by (simp_all add: example_initialized_eq)
  have c: "cached_default_allocator ?s = None"
    by (simp add: example_initialized_eq)
  have g: "get_allocator ?s '''' = Inr (Some (Allocator 2 ''locking''), ?s')"
    by (simp add: get_allocator_miss [OF l c]) (simp add: example_initialized_eq Let_def)
  have o: "list_all (\<lambda>x. \<not> sets_default_allocator x) ?ops"
    by simp
  have m: "''malloc'' \<noteq> ''''" by simp
  have f: "alloc_factory ?s ''malloc'' = Some (Some (Allocator 1 ''malloc''))"
    by (simp add: example_initialized_eq)
  from l c g o m f
    default_allocator_cache [OF l, of "Allocator 2 ''locking''" ?s' ?ops "[]" "''malloc''"]
    default_allocator_cache [OF l, of "Allocator 1 ''malloc''" ?s' "[]" "[]" "''malloc''"]
  show ?thesis by blast
qed

section \<open>Teardown of the allocators\<close>

text \<open>Which \<^verbatim>\<open>init()\<close> and \<^verbatim>\<open>destroy()\<close> calls each piece of a run contains.\<close>

lemma init_calls_append: "init_calls (xs @ ys) = init_calls xs @ init_calls ys"
  by (induction xs rule: init_calls.induct) simp_all

lemma destroy_calls_append: "destroy_calls (xs @ ys) = destroy_calls xs @ destroy_calls ys"
  by (induction xs rule: destroy_calls.induct) simp_all

lemma calls_of_inits:
  "init_calls (map Allocator_init ps) = ps" "destroy_calls (map Allocator_init ps) = []"
  by (induction ps) simp_all

lemma calls_of_teardown:
  "destroy_calls (concat (map (\<lambda>a. [Allocator_destroy a, Delete_Allocator a]) ps)) = ps"
  "init_calls (concat (map (\<lambda>a. [Allocator_destroy a, Delete_Allocator a]) ps)) = []"
  by (induction ps) simp_all

lemma calls_of_delete_ptr:
  "init_calls (delete_ptr Delete_Algorithm_Factory af) = []"
  "destroy_calls (delete_ptr Delete_Algorithm_Factory af) = []"
  "init_calls (delete_ptr Delete_Mutex mx) = []"
  "destroy_calls (delete_ptr Delete_Mutex mx) = []"
  "init_calls (delete_ptr Delete_Mutex_Factory mf) = []"
  "destroy_calls (delete_ptr Delete_Mutex_Factory mf) = []"
  by (simp_all add: delete_ptr_def split: option.splits)

lemma calls_of_destroy_Library_State:
  "destroy_calls (destroy_Library_State s tr) = destroy_calls tr @ allocators s"
  "init_calls (destroy_Library_State s tr) = init_calls tr"
  by (simp_all add: destroy_Library_State_def init_calls_append destroy_calls_append
      calls_of_teardown calls_of_delete_ptr)

text \<open>On an initialized state every \<^verbatim>\<open>add_allocator\<close> of the client registers its provider.\<close>

lemma registrations_Cons: "registrations (x # ops) = registrations [x] @ registrations ops"
  by (cases x) simp_all

lemma registrations_add_allocator: "registrations (map Op_add_allocator ps) = ps"
  by (induction ps) simp_all

lemma caught_Inr: "caught before (Inr after) = after"
  by (simp add: caught_def)

lemma apply_op_registers:
  assumes "mutex_factory (fst st) \<noteq> None" "allocator_lock (fst st) \<noteq> None"
  shows "allocators (fst (apply_op x st)) = allocators (fst st) @ registrations [x]"
    and "init_calls (snd (apply_op x st)) = init_calls (snd st) @ registrations [x]"
    and "destroy_calls (snd (apply_op x st)) = destroy_calls (snd st)"
proof -
  obtain s tr where st: "st = (s, tr)" by (cases st)
  from assms have i: "\<And>b a m. snd (initialize b a m (s, tr)) = (s, tr)"
    by (simp add: st initialize_already)
  from assms have a: "\<And>p. add_allocator p (s, tr) =
     Inr (s\<lparr>allocators := allocators s @ [p],
            alloc_factory := (alloc_factory s)(allocator_type p \<mapsto> Some p)\<rparr>,
          tr @ [Allocator_init p])"
    by (simp add: st add_allocator_locked)
  show "allocators (fst (apply_op x st)) = allocators (fst st) @ registrations [x]"
    and "init_calls (snd (apply_op x st)) = init_calls (snd st) @ registrations [x]"
    and "destroy_calls (snd (apply_op x st)) = destroy_calls (snd st)"
    unfolding st
    by (cases x; simp add: add_alias_def set_option_def caught_set_val
          caught_set_default_allocator caught_get_allocator i a caught_Inr
          init_calls_append destroy_calls_append)+
qed

lemma fold_apply_op_registers:
  "mutex_factory (fst st) \<noteq> None \<Longrightarrow> allocator_lock (fst st) \<noteq> None \<Longrightarrow>
   allocators (fst (fold apply_op ops st)) = allocators (fst st) @ registrations ops
   \<and> init_calls (snd (fold apply_op ops st)) = init_calls (snd st) @ registrations ops
   \<and> destroy_calls (snd (fold apply_op ops st)) = destroy_calls (snd st)"
proof (induction ops arbitrary: st)
  case Nil
  show ?case by simp
next
  case (Cons x ops)
  note k = apply_op_keeps [OF Cons.prems(1), of x]
  note r = apply_op_registers [OF Cons.prems, of x]
  have "mutex_factory (fst (apply_op x st)) \<noteq> None" "allocator_lock (fst (apply_op x st)) \<noteq> None"
    using Cons.prems k by simp_all
  from Cons.IH [OF this] show ?case
    by (simp add: r registrations_Cons [of x ops])
qed

lemma count_list_distinct: "distinct xs \<Longrightarrow> x \<in> set xs \<Longrightarrow> count_list xs x = 1"
  by (induction xs) (auto simp: count_list_0_iff)

text \<open>
  C6. After a successful \<^verbatim>\<open>initialize\<close> of a new \<^verbatim>\<open>Library_State\<close> and any calls of the
  client, destroying the state calls \<^verbatim>\<open>destroy()\<close> on exactly the providers registered:
  those of the module, registered by \<^verbatim>\<open>initialize\<close>, then those the client handed to
  \<^verbatim>\<open>add_allocator\<close>, one call for each registration and in that order, as \<^verbatim>\<open>init()\<close> was
  called at registration. So after \<^verbatim>\<open>add_allocator\<close> for each provider of a list \<open>ps\<close>
  the providers destroyed are the module's and then \<open>ps\<close>, and each of \<open>N\<close> distinct
  registered providers is destroyed exactly once, whatever type names they report.
\<close>

theorem every_allocator_destroyed_once:
  assumes "fst (initialize b a m (Library_State, [])) = Inr ()"
    and "modules_mutex_factory m (thread_safe a) = Some mf"
  shows "destroy_calls (destroy_Library_State
            (fst (fold apply_op ops (snd (initialize b a m (Library_State, [])))))
            (snd (fold apply_op ops (snd (initialize b a m (Library_State, []))))))
           = modules_allocators m mf @ registrations ops
       \<and> init_calls (destroy_Library_State
            (fst (fold apply_op ops (snd (initialize b a m (Library_State, [])))))
            (snd (fold apply_op ops (snd (initialize b a m (Library_State, []))))))
           = modules_allocators m mf @ registrations ops
       \<and> destroy_calls (destroy_Library_State
            (fst (fold apply_op (map Op_add_allocator ps) (snd (initialize b a m (Library_State, [])))))
            (snd (fold apply_op (map Op_add_allocator ps) (snd (initialize b a m (Library_State, []))))))
           = modules_allocators m mf @ ps
       \<and> (distinct (modules_allocators m mf @ registrations ops)
            \<and> p \<in> set (modules_allocators m mf @ registrations ops) \<longrightarrow>
          count_list (destroy_calls (destroy_Library_State
            (fst (fold apply_op ops (snd (initialize b a m (Library_State, [])))))
            (snd (fold apply_op ops (snd (initialize b a m (Library_State, []))))))) p = 1)"
proof -
  define st where "st = snd (initialize b a m (Library_State, []))"
  have n: "mutex_factory Library_State = None" by (simp add: Library_State_def)
  note l = load_modules_locked [of b m mf "Library_State\<lparr>mutex_factory := Some mf\<rparr>" "[]"]
  have f: "mutex_factory (fst st) \<noteq> None" "allocator_lock (fst st) \<noteq> None"
    using assms(1) unfolding st_def by (simp_all add: initialize_Inr_fields)
  have i: "allocators (fst st) = modules_allocators m mf"
    "init_calls (snd st) = modules_allocators m mf" "destroy_calls (snd st) = []"
    unfolding st_def
    by (simp_all add: initialize_unfold [OF n assms(2)] Let_def l init_calls_append
        destroy_calls_append calls_of_inits)
      (simp_all add: Library_State_def)
  have r: "destroy_calls (destroy_Library_State (fst (fold apply_op xs st)) (snd (fold apply_op xs st)))
             = modules_allocators m mf @ registrations xs"
    "init_calls (destroy_Library_State (fst (fold apply_op xs st)) (snd (fold apply_op xs st)))
             = modules_allocators m mf @ registrations xs" for xs
    using fold_apply_op_registers [OF f, of xs]
    by (simp_all add: calls_of_destroy_Library_State i)
  have r1: "destroy_calls (destroy_Library_State (fst (fold apply_op ops st)) (snd (fold apply_op ops st)))
             = modules_allocators m mf @ registrations ops"
    by (rule r(1))
  have r2: "init_calls (destroy_Library_State (fst (fold apply_op ops st)) (snd (fold apply_op ops st)))
             = modules_allocators m mf @ registrations ops"
    by (rule r(2))
  have r3: "destroy_calls (destroy_Library_State
              (fst (fold apply_op (map Op_add_allocator ps) st))
              (snd (fold apply_op (map Op_add_allocator ps) st)))
             = modules_allocators m mf @ ps"
    using r(1) [of "map Op_add_allocator ps"] by (simp only: registrations_add_allocator)
  have c: "distinct (modules_allocators m mf @ registrations ops)
          \<and> p \<in> set (modules_allocators m mf @ registrations ops) \<longrightarrow>
        count_list (destroy_calls (destroy_Library_State (fst (fold apply_op ops st))
                                     (snd (fold apply_op ops st)))) p = 1"
    unfolding r1 using count_list_distinct [of "modules_allocators m mf @ registrations ops" p]
    by blast
  show ?thesis
    unfolding st_def [symmetric]
    by (intro conjI, rule r1, rule r2, rule r3, rule c)
qed

theorem every_allocator_destroyed_once_witness:
  "fst (initialize (example_build True) (example_options False False) example_modules
          (Library_State, [])) = Inr ()
   \<and> modules_mutex_factory example_modules (thread_safe (example_options False False))
       = Some (Mutex_Factory 0)
   \<and> destroy_calls (destroy_Library_State
        (fst (fold apply_op
           [Op_add_allocator (Allocator 7 ''malloc''), Op_set_option ''k'' ''v'',
            Op_add_allocator (Allocator 8 ''malloc'')]
           (snd (initialize (example_build True) (example_options False False) example_modules
                   (Library_State, [])))))
        (snd (fold apply_op
           [Op_add_allocator (Allocator 7 ''malloc''), Op_set_option ''k'' ''v'',
            Op_add_allocator (Allocator 8 ''malloc'')]
           (snd (initialize (example_build True) (example_options False False) example_modules
                   (Library_State, []))))))
       = [Allocator 1 ''malloc'', Allocator 2 ''locking'', Allocator 7 ''malloc'', Allocator 8 ''malloc'']
   \<and> distinct [Allocator 1 ''malloc'', Allocator 2 ''locking'', Allocator 7 ''malloc'', Allocator 8 ''malloc'']
   \<and> Allocator 7 ''malloc'' \<in> set [Allocator 1 ''malloc'', Allocator 2 ''locking'', Allocator 7 ''malloc'', Allocator 8 ''malloc'']
   \<and> count_list (destroy_calls (destroy_Library_State
        (fst (fold apply_op
           [Op_add_allocator (Allocator 7 ''malloc''), Op_set_option ''k'' ''v'',
            Op_add_allocator (Allocator 8 ''malloc'')]
           (snd (initialize (example_build True) (example_options False False) example_modules
                   (Library_State, [])))))
        (snd (fold apply_op
           [Op_add_allocator (Allocator 7 ''malloc''), Op_set_option ''k'' ''v'',
            Op_add_allocator (Allocator 8 ''malloc'')]
           (snd (initialize (example_build True) (example_options False False) example_modules
                   (Library_State, [])))))))
        (Allocator 7 ''malloc'') = 1"
proof -
  let ?ops = "[Op_add_allocator (Allocator 7 ''malloc''), Op_set_option ''k'' ''v'',
               Op_add_allocator (Allocator 8 ''malloc'')]"
  have m: "modules_mutex_factory example_modules (thread_safe (example_options False False))
       = Some (Mutex_Factory 0)"
    by (simp add: example_modules_def example_options_def)
  have e: "modules_allocators example_modules (Mutex_Factory 0) @ registrations ?ops
       = [Allocator 1 ''malloc'', Allocator 2 ''locking'', Allocator 7 ''malloc'', Allocator 8 ''malloc'']"
    by (simp add: example_modules_def)
  have d: "distinct [Allocator 1 ''malloc'', Allocator 2 ''locking'', Allocator 7 ''malloc'', Allocator 8 ''malloc'']"
    "Allocator 7 ''malloc'' \<in> set [Allocator 1 ''malloc'', Allocator 2 ''locking'', Allocator 7 ''malloc'', Allocator 8 ''malloc'']"
    by simp_all
  from example_initialize_ok m d
    every_allocator_destroyed_once [OF example_initialize_ok m, of ?ops "[]" "Allocator 7 ''malloc''",
      unfolded e]
  show ?thesis by blast
qed

lemma example_teardown:
  "destroy_Library_State (fst (fold apply_op [Op_add_allocator (Allocator 7 ''malloc'')] example_initialized))
     (snd (fold apply_op [Op_add_allocator (Allocator 7 ''malloc'')] example_initialized)) =
   [Mutex_Factory_make (Mutex_Factory 0), Mutex_Factory_make (Mutex_Factory 0),
    Allocator_init (Allocator 1 ''malloc''), Allocator_init (Allocator 2 ''locking''),
    Allocator_init (Allocator 7 ''malloc''),
    Delete_Algorithm_Factory (Algorithm_Factory [Engine 3]),
    Allocator_destroy (Allocator 1 ''malloc''), Delete_Allocator (Allocator 1 ''malloc''),
    Allocator_destroy (Allocator 2 ''locking''), Delete_Allocator (Allocator 2 ''locking''),
    Allocator_destroy (Allocator 7 ''malloc''), Delete_Allocator (Allocator 7 ''malloc''),
    Delete_Mutex (Mutex (Mutex_Factory 0) 0), Delete_Mutex_Factory (Mutex_Factory 0),
    Delete_Mutex (Mutex (Mutex_Factory 0) 1)]"
  by (simp add: example_initialized_eq caught_def add_allocator_def Mutex_Holder_def
      destroy_Library_State_def delete_ptr_def)

end
